theory Spec2Isabelle
  imports Complex_Main
begin

section \<open>The entity transform engine of the canvas (CanvasEntityTransformer.ts)\<close>

text \<open>
  The transformer computes with JavaScript numbers. The embedding uses exact rational
  arithmetic (\<^typ>\<open>rat\<close>): every property below is a property of the formulas of the
  source, free of rounding error. A rational is always finite, so \<open>Number.isFinite\<close>
  holds of every value of the model.
\<close>

subsection \<open>Numbers\<close>

text \<open>\<open>Math.round\<close>: the nearest integer, a half rounds up.\<close>

definition Math_round :: "rat \<Rightarrow> rat" where
  "Math_round v = of_int \<lfloor>v + 1 / 2\<rfloor>"





subsection \<open>Coordinates, rectangles and node attributes\<close>

record Coordinate =
  cx :: rat
  cy :: rat

record Rect =
  rx :: rat
  ry :: rat
  rwidth :: rat
  rheight :: rat

record WarpCorners =
  tl :: Coordinate
  tr :: Coordinate
  br :: Coordinate
  bl :: Coordinate

text \<open>
  Modelled from the spec: \<open>getEmptyRect\<close> of konva/util, the initial value of both rect
  atoms, which is not among the sources. The spec gives the empty rect as \<open>{0,0,0,0}\<close>.
\<close>

definition getEmptyRect :: Rect where
  "getEmptyRect = \<lparr>rx = 0, ry = 0, rwidth = 0, rheight = 0\<rparr>"

text \<open>The attributes of a Konva node that the transformer reads and writes.\<close>

record NodeAttrs =
  nx :: rat
  ny :: rat
  nwidth :: rat
  nheight :: rat
  scaleX :: rat
  scaleY :: rat
  rotation :: rat
  offsetX :: rat
  offsetY :: rat

subsection \<open>The pan-compensated grid snap\<close>




subsection \<open>The homography solver\<close>

text \<open>
  JavaScript arrays: every read of the solver has the form \<open>xs[i] ?? 0\<close>, so a missing
  element reads as 0; a write past the end extends the array, and the holes it leaves
  read as 0 too.
\<close>

definition jsget :: "rat list \<Rightarrow> nat \<Rightarrow> rat" where
  "jsget xs i = (if i < length xs then xs ! i else 0)"

definition jsset :: "rat list \<Rightarrow> nat \<Rightarrow> rat \<Rightarrow> rat list" where
  "jsset xs i v =
     (if i < length xs then xs[i := v] else xs @ replicate (i - length xs) 0 @ [v])"

text \<open>\<open>M[row]?.[col] ?? 0\<close>\<close>

definition mget :: "rat list list \<Rightarrow> nat \<Rightarrow> nat \<Rightarrow> rat" where
  "mget M row col = (if row < length M then jsget (M ! row) col else 0)"

text \<open>The search for the pivot of column \<open>col\<close>: the inner loop over the rows below it.\<close>

definition findPivot :: "rat list list \<Rightarrow> nat \<Rightarrow> nat \<Rightarrow> nat \<times> rat" where
  "findPivot M n col =
     fold (\<lambda>row (pivotRow, maxVal).
             let val = \<bar>mget M row col\<bar>
             in if val > maxVal then (row, val) else (pivotRow, maxVal))
          [col + 1..<n] (col, \<bar>mget M col col\<bar>)"

text \<open>The loop that divides the pivot row by the pivot, for \<open>c\<close> from \<open>col\<close> to \<open>n\<close>.\<close>

definition scaleRow :: "nat \<Rightarrow> nat \<Rightarrow> rat \<Rightarrow> rat list \<Rightarrow> rat list" where
  "scaleRow n col pivot colData =
     fold (\<lambda>c r. jsset r c (jsget r c / pivot)) [col..<Suc n] colData"

text \<open>The loop that subtracts the pivot row from another row.\<close>

definition eliminateRow :: "nat \<Rightarrow> nat \<Rightarrow> rat list \<Rightarrow> rat list \<Rightarrow> rat list" where
  "eliminateRow n col colData rowData =
     (let factor = jsget rowData col
      in fold (\<lambda>c r. jsset r c (jsget r c - factor * jsget colData c)) [col..<Suc n] rowData)"

definition eliminateRows :: "nat \<Rightarrow> nat \<Rightarrow> rat list \<Rightarrow> rat list list \<Rightarrow> rat list list" where
  "eliminateRows n col colData M =
     fold (\<lambda>row M'. if row = col then M'
                     else if row < length M' then M'[row := eliminateRow n col colData (M' ! row)]
                     else M')
          [0..<n] M"

text \<open>
  The body of the loop over the columns. \<open>None\<close> stands for the two early returns of the
  source (a zero pivot, a missing pivot row), after which \<open>solveLinearSystem\<close> returns \<open>n\<close>
  zeros.
\<close>

definition gaussStep :: "nat \<Rightarrow> nat \<Rightarrow> rat list list \<Rightarrow> rat list list option" where
  "gaussStep n col M =
     (let (pivotRow, maxVal) = findPivot M n col
      in if maxVal = 0 then None
         else
           let M1 = (if pivotRow \<noteq> col then M[col := M ! pivotRow, pivotRow := M ! col] else M)
           in if \<not> col < length M1 then None
              else
                let pivot = jsget (M1 ! col) col;
                    colData = scaleRow n col pivot (M1 ! col);
                    M2 = M1[col := colData]
                in Some (eliminateRows n col colData M2))"

function gaussLoop :: "nat \<Rightarrow> nat \<Rightarrow> rat list list \<Rightarrow> rat list list option" where
  "gaussLoop n col M =
     (if col < n then
        (case gaussStep n col M of
           None \<Rightarrow> None
         | Some M' \<Rightarrow> gaussLoop n (Suc col) M')
      else Some M)"
  by pat_completeness auto
termination
  by (relation "measure (\<lambda>(n, col, M). n - col)") auto

declare gaussLoop.simps [simp del]

definition augment :: "rat list list \<Rightarrow> rat list \<Rightarrow> rat list list" where
  "augment A b = map (\<lambda>i. (A ! i) @ [jsget b i]) [0..<length A]"

definition solveLinearSystem :: "rat list list \<Rightarrow> rat list \<Rightarrow> rat list" where
  "solveLinearSystem A b =
     (let n = length b;
          M = augment A b
      in case gaussLoop n 0 M of
           None \<Rightarrow> replicate n 0
         | Some M' \<Rightarrow> map (\<lambda>row. jsget row n) M')"

text \<open>
  The two rows that a correspondence \<open>s \<mapsto> d\<close> adds to the system, and their right
  sides. The points are the elements of two lists, so the check of \<open>computeHomography\<close>
  for a missing point never fires and has no branch here.
\<close>

definition correspondenceRows :: "Coordinate \<Rightarrow> Coordinate \<Rightarrow> rat list list" where
  "correspondenceRows s d =
     (let x = cx s; y = cy s; u = cx d; v = cy d
      in [[x, y, 1, 0, 0, 0, - u * x, - u * y],
          [0, 0, 0, x, y, 1, - v * x, - v * y]])"

definition correspondenceRhs :: "Coordinate \<Rightarrow> Coordinate \<Rightarrow> rat list" where
  "correspondenceRhs s d = [cx d, cy d]"

definition systemMatrix :: "Coordinate list \<Rightarrow> Coordinate list \<Rightarrow> rat list list" where
  "systemMatrix src dst = concat (map (\<lambda>(s, d). correspondenceRows s d) (zip src dst))"

definition systemRhs :: "Coordinate list \<Rightarrow> Coordinate list \<Rightarrow> rat list" where
  "systemRhs src dst = concat (map (\<lambda>(s, d). correspondenceRhs s d) (zip src dst))"

definition computeHomography :: "Coordinate list \<Rightarrow> Coordinate list \<Rightarrow> rat list" where
  "computeHomography src dst =
     (if length src \<noteq> length dst \<or> length src < 4 then replicate 8 0
      else solveLinearSystem (systemMatrix src dst) (systemRhs src dst))"

definition applyHomography :: "rat list \<Rightarrow> Coordinate \<Rightarrow> Coordinate" where
  "applyHomography h p =
     (let h11 = jsget h 0; h12 = jsget h 1; h13 = jsget h 2;
          h21 = jsget h 3; h22 = jsget h 4; h23 = jsget h 5;
          h31 = jsget h 6; h32 = jsget h 7;
          denom = h31 * cx p + h32 * cy p + 1
      in if denom = 0 then \<lparr>cx = 0, cy = 0\<rparr>
         else \<lparr>cx = (h11 * cx p + h12 * cy p + h13) / denom,
               cy = (h21 * cx p + h22 * cy p + h23) / denom\<rparr>)"

text \<open>\<open>Number.isFinite\<close> on a number of the model.\<close>

definition isFinite :: "rat \<Rightarrow> bool" where
  "isFinite v = True"

definition isValidHomography :: "rat list \<Rightarrow> bool" where
  "isValidHomography h = (length h = 8 \<and> list_all isFinite h)"

subsection \<open>The warp resampler\<close>

datatype Quality = Preview | Final

definition getWarpSegments :: "rat \<Rightarrow> rat \<Rightarrow> Quality \<Rightarrow> nat" where
  "getWarpSegments width height quality =
     (let targetSize = (if quality = Preview then 128 else 64);
          maxDim = max width height
      in nat (max 4 \<lceil>maxDim / targetSize\<rceil>))"

text \<open>
  What is drawn on the output canvas: either the whole source image stretched to a width and
  a height, or the source image through the affine transform \<open>(a, b, c, d, e, f)\<close>, clipped
  to a destination triangle. The source inflates the clip triangle by 0.75 about its
  centroid (with \<open>Math.hypot\<close>); the command keeps the triangle before inflation.
\<close>

datatype draw =
    DrawImageStretched rat rat
  | DrawTriangle "Coordinate \<times> Coordinate \<times> Coordinate" "rat \<times> rat \<times> rat \<times> rat \<times> rat \<times> rat"

definition drawWarpTriangle ::
  "Coordinate \<times> Coordinate \<times> Coordinate \<Rightarrow> Coordinate \<times> Coordinate \<times> Coordinate \<Rightarrow> draw list" where
  "drawWarpTriangle srcTri dstTri =
     (case (srcTri, dstTri) of ((s0, s1, s2), (d0, d1, d2)) \<Rightarrow>
        let denom = cx s0 * (cy s1 - cy s2) + cx s1 * (cy s2 - cy s0) + cx s2 * (cy s0 - cy s1)
        in if denom = 0 then []
           else
             let a = (cx d0 * (cy s1 - cy s2) + cx d1 * (cy s2 - cy s0) + cx d2 * (cy s0 - cy s1)) / denom;
                 b = (cy d0 * (cy s1 - cy s2) + cy d1 * (cy s2 - cy s0) + cy d2 * (cy s0 - cy s1)) / denom;
                 c = (cx d0 * (cx s2 - cx s1) + cx d1 * (cx s0 - cx s2) + cx d2 * (cx s1 - cx s0)) / denom;
                 d = (cy d0 * (cx s2 - cx s1) + cy d1 * (cx s0 - cx s2) + cy d2 * (cx s1 - cx s0)) / denom;
                 e = (cx d0 * (cx s1 * cy s2 - cx s2 * cy s1) +
                      cx d1 * (cx s2 * cy s0 - cx s0 * cy s2) +
                      cx d2 * (cx s0 * cy s1 - cx s1 * cy s0)) / denom;
                 f = (cy d0 * (cx s1 * cy s2 - cx s2 * cy s1) +
                      cy d1 * (cx s2 * cy s0 - cx s0 * cy s2) +
                      cy d2 * (cx s0 * cy s1 - cx s1 * cy s0)) / denom
             in [DrawTriangle (d0, d1, d2) (a, b, c, d, e, f)])"

record Warped =
  canvasWidth :: rat
  canvasHeight :: rat
  warpedRect :: Rect
  draws :: "draw list"

text \<open>The body of the two nested loops of \<open>getWarpedCanvas\<close>: the two triangles of a cell.\<close>

definition warpCell :: "rat list \<Rightarrow> rat \<Rightarrow> rat \<Rightarrow> nat \<Rightarrow> nat \<Rightarrow> draw list" where
  "warpCell h stepX stepY y x =
     (let x0 = of_nat x * stepX;
          x1 = (of_nat x + 1) * stepX;
          y0 = of_nat y * stepY;
          y1 = (of_nat y + 1) * stepY;
          p00 = \<lparr>cx = x0, cy = y0\<rparr>;
          p10 = \<lparr>cx = x1, cy = y0\<rparr>;
          p11 = \<lparr>cx = x1, cy = y1\<rparr>;
          p01 = \<lparr>cx = x0, cy = y1\<rparr>;
          d00 = applyHomography h p00;
          d10 = applyHomography h p10;
          d11 = applyHomography h p11;
          d01 = applyHomography h p01
      in drawWarpTriangle (p00, p10, p11) (d00, d10, d11) @
         drawWarpTriangle (p00, p11, p01) (d00, d11, d01))"

text \<open>
  \<open>getWarpedCanvas\<close>: the source canvas (its width and height) and the corners are fields
  of the class; the first assertion fails when one of them is missing, the second when the
  new canvas yields no 2D context (\<open>ctx\<close> tells whether it does). A failed assertion is
  the left summand, with its message.
\<close>

definition getWarpedCanvas ::
  "Quality \<Rightarrow> (rat \<times> rat) option \<Rightarrow> WarpCorners option \<Rightarrow> bool \<Rightarrow> string + Warped" where
  "getWarpedCanvas quality sourceCanvas corners ctx =
     (case (sourceCanvas, corners) of
        (Some (srcW, srcH), Some w) \<Rightarrow>
          if \<not> ctx then Inl ''Failed to get canvas context'' else
          let minX = min (min (min (cx (tl w)) (cx (tr w))) (cx (br w))) (cx (bl w));
              maxX = max (max (max (cx (tl w)) (cx (tr w))) (cx (br w))) (cx (bl w));
              minY = min (min (min (cy (tl w)) (cy (tr w))) (cy (br w))) (cy (bl w));
              maxY = max (max (max (cy (tl w)) (cy (tr w))) (cy (br w))) (cy (bl w));
              rect = \<lparr>rx = minX, ry = minY, rwidth = maxX - minX, rheight = maxY - minY\<rparr>;
              cw = max 1 (of_int \<lceil>rwidth rect\<rceil>);
              ch = max 1 (of_int \<lceil>rheight rect\<rceil>);
              srcPts = [\<lparr>cx = 0, cy = 0\<rparr>, \<lparr>cx = srcW, cy = 0\<rparr>,
                        \<lparr>cx = srcW, cy = srcH\<rparr>, \<lparr>cx = 0, cy = srcH\<rparr>];
              dstPts = [\<lparr>cx = cx (tl w) - rx rect, cy = cy (tl w) - ry rect\<rparr>,
                        \<lparr>cx = cx (tr w) - rx rect, cy = cy (tr w) - ry rect\<rparr>,
                        \<lparr>cx = cx (br w) - rx rect, cy = cy (br w) - ry rect\<rparr>,
                        \<lparr>cx = cx (bl w) - rx rect, cy = cy (bl w) - ry rect\<rparr>];
              h = computeHomography srcPts dstPts
          in if \<not> isValidHomography h
             then Inr \<lparr>canvasWidth = cw, canvasHeight = ch, warpedRect = rect,
                       draws = [DrawImageStretched cw ch]\<rparr>
             else
               let segments = getWarpSegments srcW srcH quality;
                   stepX = srcW / of_nat segments;
                   stepY = srcH / of_nat segments
               in Inr \<lparr>canvasWidth = cw, canvasHeight = ch, warpedRect = rect,
                        draws = concat (map (\<lambda>y. concat (map (\<lambda>x. warpCell h stepX stepY y x)
                                                              [0..<segments]))
                                            [0..<segments])\<rparr>
      | _ \<Rightarrow> Inl ''Missing warp source'')"

subsection \<open>The state of a transformer\<close>

datatype TransformMode = Affine | Warp

datatype InteractionMode = ModeAll | ModeDrag | ModeOff

text \<open>The tools that \<open>syncInteractionState\<close> tells apart, and every other tool by name.\<close>

datatype Tool = ToolMove | ToolView | ToolOther string

text \<open>
  Calls that leave the transformer (the logger, the state API, the renderer, the worker and
  the toast) are recorded in the order in which they are made.
\<close>

datatype effect =
    LogTrace string
  | LogDebug string
  | LogWarn string
  | LogError string
  | Toast string
  | ResetEntity
  | ShowObjects
  | HideObjects
  | UpdateWarpNodes
  | Rasterize Rect
  | RasterizeCanvas "rat \<times> rat" Rect
  | WaitForRasterizationToFinish
  | SyncObjects
  | RequestRectCalculation
  | RunBboxUpdatedCallbacks
  | SetCanvasCache
  | RequestBbox

text \<open>
  The atoms and fields of the class, the attributes of its Konva nodes, and the values it
  reads from its parent adapter and from the manager. The visible and listening flags of the
  Konva nodes are rendering state and are left out, apart from the listening flag of the
  layer, which \<open>syncInteractionState\<close> decides together with the mode. A canvas is
  represented by its width and height. \<open>transformMutex\<close> tells whether the mutex is held and
  \<open>mutexWaiters\<close> how many calls of \<open>acquire\<close> are waiting for it.
  \<open>managerIsTransforming\<close> and \<open>transformingAdapter\<close> are the two atoms of the state API,
  \<open>bboxPadding\<close> is the unscaled outline padding of the stage; \<open>proxyClientRect\<close> and
  \<open>proxyCorners\<close> are what Konva computes for the proxy rect (\<open>getClientRect\<close>, and its
  transform applied to the four corners), \<open>rendererCanvas\<close> is the canvas that the renderer
  hands out, and \<open>context2d\<close> tells whether a new canvas yields a 2D context.
\<close>

record transformer =
  nodeRect :: Rect
  pixelRect :: Rect
  isPendingRectCalculation :: bool
  isTransforming :: bool
  transformMode :: TransformMode
  interactionMode :: InteractionMode
  isDragEnabled :: bool
  isTransformEnabled :: bool
  isProcessing :: bool
  silentTransform :: bool
  transformMutex :: bool
  mutexWaiters :: nat
  proxyRect :: NodeAttrs
  outlineRect :: NodeAttrs
  objectGroup :: NodeAttrs
  bufferGroup :: NodeAttrs
  warpSourceCanvas :: "(rat \<times> rat) option"
  warpSourceRect :: "Rect option"
  warpCorners :: "WarpCorners option"
  layerListening :: bool
  effects :: "effect list"
  parentId :: string
  parentPosition :: Coordinate
  parentIsEmpty :: bool
  parentIsLocked :: bool
  parentIsSegmenting :: "bool option"
  parentIsFiltering :: "bool option"
  rendererHasObjects :: bool
  isStaging :: bool
  managerIsTransforming :: bool
  transformingAdapter :: "string option"
  tool :: Tool
  isSelected :: bool
  bboxPadding :: rat
  proxyClientRect :: Rect
  proxyCorners :: WarpCorners
  rendererCanvas :: "rat \<times> rat"
  context2d :: bool

definition emit :: "effect \<Rightarrow> transformer \<Rightarrow> transformer" where
  "emit e s = s\<lparr>effects := effects s @ [e]\<rparr>"

text \<open>
  The mutex (async-mutex). \<open>acquire\<close> takes a free mutex at once and else queues the
  caller; \<open>release\<close> hands a held mutex to the first caller that waits, so that it stays
  held, and frees it when nobody waits. What a caller does once it has been handed the mutex
  is a later task and not part of the call that releases.
\<close>

definition acquire :: "transformer \<Rightarrow> transformer" where
  "acquire s =
     (if transformMutex s then s\<lparr>mutexWaiters := Suc (mutexWaiters s)\<rparr>
      else s\<lparr>transformMutex := True\<rparr>)"

definition release :: "transformer \<Rightarrow> transformer" where
  "release s =
     (if 0 < mutexWaiters s then s\<lparr>mutexWaiters := mutexWaiters s - 1\<rparr>
      else s\<lparr>transformMutex := False\<rparr>)"

subsection \<open>Snapping and fitting the proxy rect\<close>

definition syncObjectGroupWithProxyRect :: "transformer \<Rightarrow> transformer" where
  "syncObjectGroupWithProxyRect s =
     s\<lparr>objectGroup := (objectGroup s)\<lparr>nx := nx (proxyRect s), ny := ny (proxyRect s),
          scaleX := scaleX (proxyRect s), scaleY := scaleY (proxyRect s),
          rotation := rotation (proxyRect s)\<rparr>\<rparr>"


definition fitWarning :: string where
  "fitWarning = ''Cannot fit to bbox contain when transform is disabled. Did you forget to call `await adapter.transformer.startTransform()`?''"

text \<open>
  The three fit operations read the bbox \<open>rect\<close> and the position grid size from the state
  API; both are parameters.
\<close>

definition fitToBboxFill :: "Rect \<Rightarrow> transformer \<Rightarrow> transformer" where
  "fitToBboxFill rect s =
     (if \<not> isTransformEnabled s then emit (LogWarn fitWarning) s
      else
        let sX = rwidth rect / nwidth (proxyRect s);
            sY = rheight rect / nheight (proxyRect s)
        in syncObjectGroupWithProxyRect
             (s\<lparr>proxyRect := (proxyRect s)\<lparr>nx := rx rect, ny := ry rect,
                  scaleX := sX, scaleY := sY, rotation := 0\<rparr>\<rparr>))"




subsection \<open>Interaction state\<close>

definition enableTransform :: "transformer \<Rightarrow> transformer" where
  "enableTransform s = s\<lparr>isTransformEnabled := True\<rparr>"

definition disableTransform :: "transformer \<Rightarrow> transformer" where
  "disableTransform s = s\<lparr>isTransformEnabled := False\<rparr>"

definition enableDrag :: "transformer \<Rightarrow> transformer" where
  "enableDrag s = s\<lparr>isDragEnabled := True\<rparr>"

definition disableDrag :: "transformer \<Rightarrow> transformer" where
  "disableDrag s = s\<lparr>isDragEnabled := False\<rparr>"

text \<open>
  Modelled from the spec: \<open>roundRect\<close> of konva/util, which is not among the sources: the
  rect rounded to integer pixels.
\<close>

definition roundRect :: "Rect \<Rightarrow> Rect" where
  "roundRect r = \<lparr>rx = Math_round (rx r), ry = Math_round (ry r),
                   rwidth = Math_round (rwidth r), rheight = Math_round (rheight r)\<rparr>"

definition prepareWarpPreview :: "transformer \<Rightarrow> transformer" where
  "prepareWarpPreview s =
     (if \<not> isTransforming s then s
      else
        let rect = proxyClientRect s
        in if rwidth rect = 0 \<or> rheight rect = 0 then s
           else
             let canvas = rendererCanvas s;
                 rot = rotation (proxyRect s)
             in if rot \<noteq> 0 \<and> \<not> context2d s then s
                else
                  let source =
                        (if rot \<noteq> 0
                         then (max 1 (Math_round \<bar>nwidth (proxyRect s) * scaleX (proxyRect s)\<bar>),
                               max 1 (Math_round \<bar>nheight (proxyRect s) * scaleY (proxyRect s)\<bar>))
                         else canvas)
                  in emit UpdateWarpNodes (emit HideObjects
                       (s\<lparr>warpSourceCanvas := Some source, warpSourceRect := Some rect,
                           warpCorners := Some (proxyCorners s)\<rparr>)))"

definition teardownWarpPreview :: "transformer \<Rightarrow> transformer" where
  "teardownWarpPreview s =
     emit ShowObjects (s\<lparr>warpSourceCanvas := None, warpSourceRect := None, warpCorners := None\<rparr>)"

definition enableWarp :: "transformer \<Rightarrow> transformer" where
  "enableWarp s =
     (let s1 = emit HideObjects s
      in if warpSourceCanvas s1 = None then prepareWarpPreview s1 else s1)"

text \<open>
  \<open>_setInteractionMode\<close>. Disabling the warp and showing or hiding the outline only touch
  Konva flags.
\<close>

definition setInteractionMode :: "InteractionMode \<Rightarrow> transformer \<Rightarrow> transformer" where
  "setInteractionMode m s =
     (let s1 = s\<lparr>interactionMode := m\<rparr>
      in case m of
           ModeDrag \<Rightarrow> disableTransform (enableDrag s1)
         | ModeAll \<Rightarrow>
             (if transformMode s1 = Warp
              then enableWarp (disableTransform (disableDrag s1))
              else enableTransform (enableDrag s1))
         | ModeOff \<Rightarrow> disableTransform (disableDrag s1))"

definition listening :: "bool \<Rightarrow> transformer \<Rightarrow> transformer" where
  "listening b s = s\<lparr>layerListening := b\<rparr>"

definition syncInteractionState :: "transformer \<Rightarrow> transformer" where
  "syncInteractionState s0 =
     (let s = emit (LogTrace ''Syncing interaction state'') s0
      in if isStaging s then setInteractionMode ModeOff (listening False s)
         else if parentIsSegmenting s = Some True then setInteractionMode ModeOff (listening True s)
         else if parentIsFiltering s = Some True then setInteractionMode ModeOff (listening False s)
         else if managerIsTransforming s \<and> \<not> isTransforming s
           then setInteractionMode ModeOff (listening False s)
         else if isPendingRectCalculation s \<or> rwidth (pixelRect s) = 0 \<or> rheight (pixelRect s) = 0
           then setInteractionMode ModeOff (listening False s)
         else if \<not> isSelected s then setInteractionMode ModeOff (listening False s)
         else if parentIsEmpty s then setInteractionMode ModeOff (listening False s)
         else if parentIsLocked s then setInteractionMode ModeOff (listening False s)
         else if \<not> isTransforming s \<and> tool s = ToolMove
           then setInteractionMode ModeDrag (listening True s)
         else if isTransforming s
           then (if tool s = ToolView then setInteractionMode ModeOff (listening False s)
                 else setInteractionMode ModeAll (listening True s))
         else setInteractionMode ModeOff (listening False s))"

text \<open>
  The priority chain in the words of the spec. The entity is empty when its pixel rect has
  no width or no height, or when the adapter says that it is empty. The spec leaves the
  tool-dependent default open; it is the one of the source.
\<close>

definition toolDefault :: "transformer \<Rightarrow> InteractionMode" where
  "toolDefault s =
     (if \<not> isTransforming s \<and> tool s = ToolMove then ModeDrag
      else if isTransforming s then (if tool s = ToolView then ModeOff else ModeAll)
      else ModeOff)"

definition spec_globallyBusy :: "transformer \<Rightarrow> bool" where
  "spec_globallyBusy s = isStaging s"

definition spec_conflictingOperation :: "transformer \<Rightarrow> bool" where
  "spec_conflictingOperation s =
     (parentIsSegmenting s = Some True \<or> parentIsFiltering s = Some True)"

definition spec_otherEntityTransforming :: "transformer \<Rightarrow> bool" where
  "spec_otherEntityTransforming s = (managerIsTransforming s \<and> \<not> isTransforming s)"

definition spec_entityEmpty :: "transformer \<Rightarrow> bool" where
  "spec_entityEmpty s =
     (rwidth (pixelRect s) = 0 \<or> rheight (pixelRect s) = 0 \<or> parentIsEmpty s)"

definition spec_priorityChain :: "transformer \<Rightarrow> InteractionMode" where
  "spec_priorityChain s =
     (if spec_globallyBusy s then ModeOff
      else if spec_conflictingOperation s then ModeOff
      else if spec_otherEntityTransforming s then ModeOff
      else if isPendingRectCalculation s \<or> spec_entityEmpty s then ModeOff
      else if \<not> isSelected s then ModeOff
      else if parentIsLocked s then ModeOff
      else toolDefault s)"

subsection \<open>Bounding box\<close>

definition update :: "Coordinate \<Rightarrow> Rect \<Rightarrow> transformer \<Rightarrow> transformer" where
  "update position bbox s =
     s\<lparr>outlineRect := (outlineRect s)\<lparr>nx := cx position + rx bbox - bboxPadding s,
                                        ny := cy position + ry bbox - bboxPadding s,
                                        nwidth := rwidth bbox + bboxPadding s * 2,
                                        nheight := rheight bbox + bboxPadding s * 2\<rparr>,
       proxyRect := (proxyRect s)\<lparr>nx := cx position + rx bbox, ny := cy position + ry bbox,
                                    nwidth := rwidth bbox, nheight := rheight bbox\<rparr>\<rparr>"

definition setGroupAttrs :: "Coordinate \<Rightarrow> Rect \<Rightarrow> transformer \<Rightarrow> transformer" where
  "setGroupAttrs position r s =
     s\<lparr>objectGroup := (objectGroup s)\<lparr>nx := cx position + rx r, ny := cy position + ry r,
                                        offsetX := rx r, offsetY := ry r\<rparr>,
       bufferGroup := (bufferGroup s)\<lparr>nx := cx position + rx r, ny := cy position + ry r,
                                        offsetX := rx r, offsetY := ry r\<rparr>\<rparr>"

definition updatePosition :: "Coordinate option \<Rightarrow> transformer \<Rightarrow> transformer" where
  "updatePosition arg s0 =
     (let s = emit (LogTrace ''Updating position'') s0;
          position = (case arg of Some p \<Rightarrow> p | None \<Rightarrow> parentPosition s);
          r = pixelRect s
      in update position r (setGroupAttrs position r s))"

definition updateBbox :: "transformer \<Rightarrow> transformer" where
  "updateBbox s0 =
     (let r = pixelRect s0;
          s = emit (LogTrace ''Updating bbox'') s0
      in if isPendingRectCalculation s then syncInteractionState s
         else if rwidth r = 0 \<or> rheight r = 0 then
           syncInteractionState
             (if \<not> isTransforming s \<and> \<not> isProcessing s
              then (if rendererHasObjects s then emit ResetEntity s else s)
              else s)
         else
           emit RunBboxUpdatedCallbacks
             (setGroupAttrs (parentPosition s) r
                (update (parentPosition s) r (syncInteractionState s))))"



subsection \<open>The transform lifecycle\<close>

text \<open>
  How a call ends: it returns, it throws (a failed assertion), or it waits for the mutex,
  which another holder has to release first.
\<close>

datatype outcome = Returned | Threw string | Blocked

definition resetScale :: "transformer \<Rightarrow> transformer" where
  "resetScale s =
     s\<lparr>objectGroup := (objectGroup s)\<lparr>scaleX := 1, scaleY := 1, rotation := 0\<rparr>,
       bufferGroup := (bufferGroup s)\<lparr>scaleX := 1, scaleY := 1, rotation := 0\<rparr>,
       outlineRect := (outlineRect s)\<lparr>scaleX := 1, scaleY := 1, rotation := 0\<rparr>,
       proxyRect := (proxyRect s)\<lparr>scaleX := 1, scaleY := 1, rotation := 0\<rparr>\<rparr>"

definition resetTransform :: "transformer \<Rightarrow> transformer" where
  "resetTransform s = updateBbox (updatePosition None (resetScale s))"

text \<open>
  \<open>arg\<close> is the optional argument \<open>{ silent }\<close>. A call that finds the mutex held waits
  in its queue.
\<close>

definition startTransform :: "bool option \<Rightarrow> transformer \<Rightarrow> outcome \<times> transformer" where
  "startTransform arg s =
     (case transformingAdapter s of
        Some a \<Rightarrow> (Threw (''Already transforming an entity: '' @ a), s)
      | None \<Rightarrow>
          if transformMutex s then (Blocked, acquire s)
          else
            let s1 = emit (LogDebug ''Starting transform'') (acquire s);
                silent = (case arg of Some b \<Rightarrow> b | None \<Rightarrow> False);
                s2 = s1\<lparr>silentTransform := silent, isTransforming := True,
                        transformingAdapter := Some (parentId s1)\<rparr>;
                s3 = (if transformMode s2 \<noteq> Affine then s2\<lparr>transformMode := Affine\<rparr> else s2)
            in (Returned, syncInteractionState (teardownWarpPreview s3)))"

definition stopTransform :: "transformer \<Rightarrow> transformer" where
  "stopTransform s =
     (let s1 = (emit (LogDebug ''Stopping transform'') s)\<lparr>isTransforming := False\<rparr>;
          s2 = emit ShowObjects (teardownWarpPreview s1);
          s3 = syncInteractionState (resetTransform s2)
      in release (s3\<lparr>transformingAdapter := None, isProcessing := False\<rparr>))"

text \<open>
  \<open>requestRectCalculation\<close> up to its \<open>await\<close>: the request is recorded and the mutex is
  taken, or waited for. The rect calculation itself runs later, as the holder of the mutex.
\<close>

definition requestRectCalculation :: "transformer \<Rightarrow> transformer" where
  "requestRectCalculation s = acquire (emit RequestRectCalculation s)"

definition updateWarpBBoxFromCorners :: "transformer \<Rightarrow> transformer" where
  "updateWarpBBoxFromCorners s =
     (case warpCorners s of
        None \<Rightarrow> s
      | Some w \<Rightarrow>
          let minX = min (min (min (cx (tl w)) (cx (tr w))) (cx (br w))) (cx (bl w));
              maxX = max (max (max (cx (tl w)) (cx (tr w))) (cx (br w))) (cx (bl w));
              minY = min (min (min (cy (tl w)) (cy (tr w))) (cy (br w))) (cy (bl w));
              maxY = max (max (max (cy (tl w)) (cy (tr w))) (cy (br w))) (cy (bl w));
              width = max 1 (maxX - minX);
              height = max 1 (maxY - minY)
          in s\<lparr>proxyRect := (proxyRect s)\<lparr>nx := minX, ny := minY, nwidth := width,
                  nheight := height, scaleX := 1, scaleY := 1, rotation := 0\<rparr>,
                outlineRect := (outlineRect s)\<lparr>nx := minX - bboxPadding s,
                  ny := minY - bboxPadding s, nwidth := width + bboxPadding s * 2,
                  nheight := height + bboxPadding s * 2\<rparr>\<rparr>)"

text \<open>
  \<open>applyWarpTransform\<close>: \<open>rasterizeOk\<close> tells whether the renderer's rasterization
  succeeds. The result says whether the promise is fulfilled.
\<close>

definition applyWarpTransform :: "bool \<Rightarrow> transformer \<Rightarrow> bool \<times> transformer" where
  "applyWarpTransform rasterizeOk s =
     (if warpSourceCanvas s = None \<or> warpCorners s = None then (False, s)
      else
        let s1 = updateWarpBBoxFromCorners s
        in case getWarpedCanvas Final (warpSourceCanvas s1) (warpCorners s1) (context2d s1) of
             Inl e \<Rightarrow> (False, s1)
           | Inr warped \<Rightarrow>
               let s2 = emit (RasterizeCanvas (canvasWidth warped, canvasHeight warped)
                                (warpedRect warped)) s1
               in if \<not> rasterizeOk then (False, s2)
                  else (True, requestRectCalculation
                                (emit SyncObjects (emit WaitForRasterizationToFinish s2))))"

definition applyWarning :: string where
  "applyWarning = ''Cannot apply transform when not transforming. Did you forget to call `await adapter.transformer.startTransform()`?''"

definition reportFailure :: "string \<Rightarrow> transformer \<Rightarrow> transformer" where
  "reportFailure msg s = emit (LogError msg) (emit (Toast ''Failed to apply transform'') s)"

text \<open>
  \<open>applyTransform\<close>. The rect calculation that it requests waits for the mutex, which the
  transform still holds, so \<open>stopTransform\<close> runs first, and its \<open>release\<close> hands the mutex
  to the waiting request: the mutex is still held when \<open>applyTransform\<close> is done.
\<close>

definition applyTransform :: "bool \<Rightarrow> transformer \<Rightarrow> transformer" where
  "applyTransform rasterizeOk s =
     (if \<not> isTransforming s then emit (LogWarn applyWarning) s
      else
        let s1 = (emit (LogDebug ''Applying transform'') s)\<lparr>isProcessing := True\<rparr>;
            s2 = (if transformMode s1 = Warp
                  then
                    (case applyWarpTransform rasterizeOk
                            (disableTransform (disableDrag (s1\<lparr>interactionMode := ModeOff\<rparr>))) of
                       (ok, s') \<Rightarrow>
                         if ok then s' else reportFailure ''Failed to apply warp transform'' s')
                  else
                    let s' = emit (Rasterize (roundRect (proxyClientRect s1)))
                               (setInteractionMode ModeOff s1)
                    in if rasterizeOk then s' else reportFailure ''Failed to rasterize entity'' s')
        in stopTransform (requestRectCalculation s2))"


subsection \<open>A transformer after construction\<close>

text \<open>
  The initial values of the atoms and fields of the class, with Konva's default node
  attributes, for a selected entity \<open>layer_1\<close> that has objects, under the move tool,
  while nothing else is going on.
\<close>

definition defaultNode :: NodeAttrs where
  "defaultNode = \<lparr>nx = 0, ny = 0, nwidth = 0, nheight = 0, scaleX = 1, scaleY = 1,
                   rotation = 0, offsetX = 0, offsetY = 0\<rparr>"

definition origin :: Coordinate where
  "origin = \<lparr>cx = 0, cy = 0\<rparr>"

definition newTransformer :: transformer where
  "newTransformer =
     \<lparr>nodeRect = getEmptyRect, pixelRect = getEmptyRect, isPendingRectCalculation = False,
      isTransforming = False, transformMode = Affine, interactionMode = ModeOff,
      isDragEnabled = False, isTransformEnabled = False, isProcessing = False,
      silentTransform = False, transformMutex = False, mutexWaiters = 0,
      proxyRect = defaultNode, outlineRect = defaultNode, objectGroup = defaultNode,
      bufferGroup = defaultNode,
      warpSourceCanvas = None, warpSourceRect = None, warpCorners = None,
      layerListening = True, effects = [],
      parentId = ''layer_1'', parentPosition = origin, parentIsEmpty = False,
      parentIsLocked = False, parentIsSegmenting = None, parentIsFiltering = Some False,
      rendererHasObjects = True, isStaging = False, managerIsTransforming = False,
      transformingAdapter = None, tool = ToolMove, isSelected = True,
      bboxPadding = 0, proxyClientRect = getEmptyRect,
      proxyCorners = \<lparr>tl = origin, tr = origin, br = origin, bl = origin\<rparr>,
      rendererCanvas = (1, 1), context2d = True\<rparr>"


subsection \<open>Example states\<close>




text \<open>A transformer of one entity while another entity, \<open>layer_2\<close>, is being transformed.\<close>

definition bystander :: transformer where
  "bystander =
     newTransformer\<lparr>managerIsTransforming := True, transformingAdapter := Some ''layer_2''\<rparr>"

text \<open>
  A warp of a 128 by 128 source in which the bottom-left corner has been dragged onto the
  right edge, in line with the two right corners.
\<close>

definition collinearCorners :: WarpCorners where
  "collinearCorners = \<lparr>tl = \<lparr>cx = 0, cy = 0\<rparr>, tr = \<lparr>cx = 128, cy = 0\<rparr>,
     br = \<lparr>cx = 128, cy = 128\<rparr>, bl = \<lparr>cx = 128, cy = 64\<rparr>\<rparr>"



subsection \<open>Notions for the correctness of the solver\<close>

text \<open>
  An augmented matrix of \<open>n\<close> rows with \<open>n + 1\<close> entries each; its first \<open>k\<close> columns are
  unit columns; \<open>x\<close> solves the system that it stands for.
\<close>

definition wfMatrix :: "nat \<Rightarrow> rat list list \<Rightarrow> bool" where
  "wfMatrix n M = (length M = n \<and> (\<forall>r<n. length (M ! r) = Suc n))"

definition unitCols :: "nat \<Rightarrow> nat \<Rightarrow> rat list list \<Rightarrow> bool" where
  "unitCols n k M = (\<forall>r<n. \<forall>c<k. M ! r ! c = (if r = c then 1 else 0))"

definition sat :: "nat \<Rightarrow> rat list list \<Rightarrow> (nat \<Rightarrow> rat) \<Rightarrow> bool" where
  "sat n M x = (\<forall>r<n. (\<Sum>c<n. M ! r ! c * x c) = M ! r ! n)"

text \<open>
  The four corners of a 128 by 128 source, a quad whose bottom-left corner has been dragged
  onto the diagonal, and a trapezoid.
\<close>

definition sourceSquare :: "Coordinate list" where
  "sourceSquare = [\<lparr>cx = 0, cy = 0\<rparr>, \<lparr>cx = 128, cy = 0\<rparr>, \<lparr>cx = 128, cy = 128\<rparr>,
                   \<lparr>cx = 0, cy = 128\<rparr>]"

definition foldedQuad :: "Coordinate list" where
  "foldedQuad = [\<lparr>cx = 0, cy = 0\<rparr>, \<lparr>cx = 128, cy = 0\<rparr>, \<lparr>cx = 128, cy = 128\<rparr>,
                 \<lparr>cx = 64, cy = 64\<rparr>]"

definition trapezoid :: "Coordinate list" where
  "trapezoid = [\<lparr>cx = 0, cy = 0\<rparr>, \<lparr>cx = 128, cy = 0\<rparr>, \<lparr>cx = 96, cy = 128\<rparr>,
                \<lparr>cx = 32, cy = 128\<rparr>]"

section \<open>Properties\<close>

subsection \<open>Rounding\<close>




lemma floor_neg_numeral_div:
  "\<lfloor>- (numeral a / numeral b) :: rat\<rfloor> = - numeral a div numeral b"
  using floor_divide_of_int_eq[of "- numeral a" "numeral b", where ?'a = rat] by simp





subsection \<open>The interaction mode\<close>

lemma interactionMode_emit [simp]: "interactionMode (emit e s) = interactionMode s"
  by (simp add: emit_def)

lemma interactionMode_prepareWarpPreview [simp]:
  "interactionMode (prepareWarpPreview s) = interactionMode s"
  by (simp add: prepareWarpPreview_def Let_def)

lemma interactionMode_enableWarp [simp]: "interactionMode (enableWarp s) = interactionMode s"
  by (simp add: enableWarp_def Let_def)

lemma interactionMode_setInteractionMode [simp]:
  "interactionMode (setInteractionMode m s) = m"
  by (cases m)
     (simp_all add: setInteractionMode_def Let_def enableTransform_def disableTransform_def
        enableDrag_def disableDrag_def)

text \<open>
  C4. The interaction mode that \<open>syncInteractionState\<close> sets is the mode of the priority
  chain of the spec, evaluated in its order: globally busy, a conflicting segmentation or
  filter operation, another entity mid-transform, bbox pending or entity empty, entity not
  selected, entity locked, and last the tool-dependent default.
\<close>

theorem syncInteractionState_priority_chain:
  "interactionMode (syncInteractionState s) = spec_priorityChain s"
  by (simp add: syncInteractionState_def spec_priorityChain_def Let_def toolDefault_def
      spec_globallyBusy_def spec_conflictingOperation_def spec_otherEntityTransforming_def
      spec_entityEmpty_def emit_def listening_def)

theorem syncInteractionState_priority_chain_witness:
  "interactionMode (syncInteractionState bystander) = ModeOff \<and>
   spec_priorityChain bystander = ModeOff"
  using syncInteractionState_priority_chain [of bystander]
  by (simp add: spec_priorityChain_def spec_globallyBusy_def spec_conflictingOperation_def
      spec_otherEntityTransforming_def bystander_def newTransformer_def)

subsection \<open>Snapping the proxy rect to the pixel grid\<close>



subsection \<open>Fitting the proxy rect to the bbox\<close>




subsection \<open>Starting and applying a transform\<close>

text \<open>
  C8. When an entity is already marked as the transforming entity, \<open>startTransform\<close> fails
  with the assertion and leaves the whole state as it was: the mutex is not acquired and
  neither the transforming flag, the transform mode nor the transforming-entity pointer
  changes.
\<close>

theorem startTransform_fails_fast:
  "transformingAdapter s = Some a \<Longrightarrow>
   startTransform arg s = (Threw (''Already transforming an entity: '' @ a), s)"
  by (simp add: startTransform_def)

theorem startTransform_fails_fast_witness:
  "transformingAdapter bystander = Some ''layer_2'' \<and>
   startTransform None bystander = (Threw ''Already transforming an entity: layer_2'', bystander)"
proof -
  have h: "transformingAdapter bystander = Some ''layer_2''"
    by (simp add: bystander_def)
  from startTransform_fails_fast [OF h, of None] h show ?thesis
    by simp
qed

text \<open>
  C10. Called while the transforming flag is false, \<open>applyTransform\<close> only logs a warning:
  nothing is rasterized, no rect calculation is requested, \<open>stopTransform\<close> does not run,
  and every field of the state other than the record of calls keeps its value.
\<close>

theorem applyTransform_not_transforming:
  "\<not> isTransforming s \<Longrightarrow>
   applyTransform rasterizeOk s = s\<lparr>effects := effects s @ [LogWarn applyWarning]\<rparr>"
  by (simp add: applyTransform_def emit_def)

theorem applyTransform_not_transforming_witness:
  "\<not> isTransforming newTransformer \<and>
   applyTransform True newTransformer = newTransformer\<lparr>effects := [LogWarn applyWarning]\<rparr>"
proof -
  have h: "\<not> isTransforming newTransformer"
    by (simp add: newTransformer_def)
  from applyTransform_not_transforming [OF h, of True] h show ?thesis
    by (simp add: newTransformer_def)
qed


subsection \<open>The grid snap\<close>







subsection \<open>Resetting an empty entity\<close>

lemma effects_emit: "effects (emit e s) = effects s @ [e]"
  by (simp add: emit_def)

lemma prepareWarpPreview_effects:
  "\<exists>es. effects (prepareWarpPreview s) = effects s @ es \<and> ResetEntity \<notin> set es"
  by (simp add: prepareWarpPreview_def Let_def effects_emit)

lemma enableWarp_effects:
  "\<exists>es. effects (enableWarp s) = effects s @ es \<and> ResetEntity \<notin> set es"
proof -
  obtain es where es: "effects (prepareWarpPreview (emit HideObjects s)) = effects (emit HideObjects s) @ es"
      "ResetEntity \<notin> set es"
    using prepareWarpPreview_effects by blast
  show ?thesis
    by (simp add: enableWarp_def Let_def es effects_emit)
qed

lemma setInteractionMode_effects:
  "\<exists>es. effects (setInteractionMode m s) = effects s @ es \<and> ResetEntity \<notin> set es"
proof (cases m)
  case ModeAll
  obtain es where "effects (enableWarp (disableTransform (disableDrag (s\<lparr>interactionMode := ModeAll\<rparr>)))) =
      effects (disableTransform (disableDrag (s\<lparr>interactionMode := ModeAll\<rparr>))) @ es" "ResetEntity \<notin> set es"
    using enableWarp_effects by blast
  then show ?thesis using ModeAll
    by (simp add: setInteractionMode_def Let_def enableTransform_def disableTransform_def
        enableDrag_def disableDrag_def)
qed (simp_all add: setInteractionMode_def Let_def enableTransform_def disableTransform_def
        enableDrag_def disableDrag_def)

lemma syncInteractionState_effects:
  "\<exists>es. effects (syncInteractionState s) = effects s @ es \<and> ResetEntity \<notin> set es"
proof -
  define Q where "Q t \<longleftrightarrow> (\<exists>es. effects t = effects s @ es \<and> ResetEntity \<notin> set es)"
    for t :: transformer
  have Qif: "Q a \<Longrightarrow> Q b \<Longrightarrow> Q (if c then a else b)" for a b c
    by simp
  have Qset: "Q (setInteractionMode m (listening b (emit (LogTrace ''Syncing interaction state'') s)))"
    for m b
  proof -
    obtain es where
      "effects (setInteractionMode m (listening b (emit (LogTrace ''Syncing interaction state'') s))) =
        effects (listening b (emit (LogTrace ''Syncing interaction state'') s)) @ es"
      "ResetEntity \<notin> set es"
      using setInteractionMode_effects by blast
    then show ?thesis by (simp add: Q_def listening_def effects_emit)
  qed
  have "Q (syncInteractionState s)"
    unfolding syncInteractionState_def Let_def by (intro Qif Qset)
  then show ?thesis by (simp add: Q_def)
qed

lemma effects_update [simp]: "effects (update pos r s) = effects s"
  by (simp add: update_def)

lemma effects_setGroupAttrs [simp]: "effects (setGroupAttrs pos r s) = effects s"
  by (simp add: setGroupAttrs_def)

text \<open>
  C9. \<open>updateBbox\<close> resets the entity exactly when no rect calculation is pending, the
  pixel rect has zero width or zero height, neither the transforming flag nor the
  processing flag is set, and the renderer has objects. In particular it never resets
  while a transform or an apply-transform is in flight.
\<close>

theorem updateBbox_reset_guard:
  "\<exists>es. effects (updateBbox s) = effects s @ es \<and>
     (ResetEntity \<in> set es \<longleftrightarrow>
        \<not> isPendingRectCalculation s \<and> (rwidth (pixelRect s) = 0 \<or> rheight (pixelRect s) = 0) \<and>
        \<not> isTransforming s \<and> \<not> isProcessing s \<and> rendererHasObjects s)"
proof -
  let ?s = "emit (LogTrace ''Updating bbox'') s"
  have sync: "\<exists>es. effects (syncInteractionState t) = effects t @ es \<and> ResetEntity \<notin> set es" for t
    by (rule syncInteractionState_effects)
  consider (pending) "isPendingRectCalculation s"
    | (reset) "\<not> isPendingRectCalculation s" "rwidth (pixelRect s) = 0 \<or> rheight (pixelRect s) = 0"
        "\<not> isTransforming s \<and> \<not> isProcessing s \<and> rendererHasObjects s"
    | (keep) "\<not> isPendingRectCalculation s" "rwidth (pixelRect s) = 0 \<or> rheight (pixelRect s) = 0"
        "\<not> (\<not> isTransforming s \<and> \<not> isProcessing s \<and> rendererHasObjects s)"
    | (content) "\<not> isPendingRectCalculation s" "\<not> (rwidth (pixelRect s) = 0 \<or> rheight (pixelRect s) = 0)"
    by blast
  then show ?thesis
  proof cases
    case pending
    then have u: "updateBbox s = syncInteractionState ?s"
      by (simp add: updateBbox_def Let_def emit_def)
    from sync[of ?s] obtain es where "effects (syncInteractionState ?s) = effects ?s @ es" "ResetEntity \<notin> set es"
      by blast
    then have "effects (updateBbox s) = effects s @ (LogTrace ''Updating bbox'' # es) \<and>
        ResetEntity \<notin> set (LogTrace ''Updating bbox'' # es)"
      by (simp add: u effects_emit)
    with pending show ?thesis by blast
  next
    case reset
    then have u: "updateBbox s = syncInteractionState (emit ResetEntity ?s)"
      by (simp add: updateBbox_def Let_def emit_def)
    from sync[of "emit ResetEntity ?s"] obtain es where
      "effects (syncInteractionState (emit ResetEntity ?s)) = effects (emit ResetEntity ?s) @ es"
      by blast
    then have "effects (updateBbox s) = effects s @ (LogTrace ''Updating bbox'' # ResetEntity # es) \<and>
        ResetEntity \<in> set (LogTrace ''Updating bbox'' # ResetEntity # es)"
      by (simp add: u effects_emit)
    with reset show ?thesis by blast
  next
    case keep
    then have u: "updateBbox s = syncInteractionState ?s"
      by (auto simp add: updateBbox_def Let_def emit_def)
    from sync[of ?s] obtain es where "effects (syncInteractionState ?s) = effects ?s @ es" "ResetEntity \<notin> set es"
      by blast
    then have "effects (updateBbox s) = effects s @ (LogTrace ''Updating bbox'' # es) \<and>
        ResetEntity \<notin> set (LogTrace ''Updating bbox'' # es)"
      by (simp add: u effects_emit)
    with keep show ?thesis by blast
  next
    case content
    then have u: "updateBbox s = emit RunBboxUpdatedCallbacks
             (setGroupAttrs (parentPosition ?s) (pixelRect s)
                (update (parentPosition ?s) (pixelRect s) (syncInteractionState ?s)))"
      by (simp add: updateBbox_def Let_def emit_def)
    from sync[of ?s] obtain es where "effects (syncInteractionState ?s) = effects ?s @ es" "ResetEntity \<notin> set es"
      by blast
    then have "effects (updateBbox s) = effects s @ (LogTrace ''Updating bbox'' # es @ [RunBboxUpdatedCallbacks]) \<and>
        ResetEntity \<notin> set (LogTrace ''Updating bbox'' # es @ [RunBboxUpdatedCallbacks])"
      by (simp add: u effects_emit)
    with content show ?thesis by blast
  qed
qed

theorem updateBbox_reset_guard_witness:
  "ResetEntity \<in> set (effects (updateBbox newTransformer)) \<and>
   ResetEntity \<notin> set (effects (updateBbox (newTransformer\<lparr>isTransforming := True\<rparr>))) \<and>
   ResetEntity \<notin> set (effects (updateBbox (newTransformer\<lparr>isProcessing := True\<rparr>)))"
  using updateBbox_reset_guard [of newTransformer]
    updateBbox_reset_guard [of "newTransformer\<lparr>isTransforming := True\<rparr>"]
    updateBbox_reset_guard [of "newTransformer\<lparr>isProcessing := True\<rparr>"]
  by (auto simp add: newTransformer_def getEmptyRect_def)

subsection \<open>Node rect and pixel rect\<close>

lemma rects_emit [simp]: "nodeRect (emit e s) = nodeRect s" "pixelRect (emit e s) = pixelRect s"
  by (simp_all add: emit_def)

lemma rects_release [simp]:
  "nodeRect (release s) = nodeRect s" "pixelRect (release s) = pixelRect s"
  by (simp_all add: release_def)

lemma rects_prepareWarpPreview [simp]:
  "nodeRect (prepareWarpPreview s) = nodeRect s" "pixelRect (prepareWarpPreview s) = pixelRect s"
  by (simp_all add: prepareWarpPreview_def Let_def)

lemma rects_enableWarp [simp]:
  "nodeRect (enableWarp s) = nodeRect s" "pixelRect (enableWarp s) = pixelRect s"
  by (simp_all add: enableWarp_def Let_def)

lemma rects_setInteractionMode [simp]:
  "nodeRect (setInteractionMode m s) = nodeRect s"
  "pixelRect (setInteractionMode m s) = pixelRect s"
  by (cases m; simp add: setInteractionMode_def Let_def enableTransform_def disableTransform_def
        enableDrag_def disableDrag_def)+

lemma rects_syncInteractionState [simp]:
  "nodeRect (syncInteractionState s) = nodeRect s"
  "pixelRect (syncInteractionState s) = pixelRect s"
  by (simp_all add: syncInteractionState_def Let_def listening_def)

lemma rects_update [simp]:
  "nodeRect (update pos r s) = nodeRect s" "pixelRect (update pos r s) = pixelRect s"
  by (simp_all add: update_def)

lemma rects_setGroupAttrs [simp]:
  "nodeRect (setGroupAttrs pos r s) = nodeRect s" "pixelRect (setGroupAttrs pos r s) = pixelRect s"
  by (simp_all add: setGroupAttrs_def)

lemma rects_updateBbox [simp]:
  "nodeRect (updateBbox s) = nodeRect s" "pixelRect (updateBbox s) = pixelRect s"
  by (simp_all add: updateBbox_def Let_def)







subsection \<open>The homography solver\<close>

text \<open>The inner loops, entry by entry, on rows of full length.\<close>

lemma fold_jsset:
  assumes "k \<le> length r"
  shows "length (fold (\<lambda>c r. jsset r c (F c (jsget r c))) [j..<k] r) = length r \<and>
    (\<forall>c<length r. fold (\<lambda>c r. jsset r c (F c (jsget r c))) [j..<k] r ! c =
        (if j \<le> c \<and> c < k then F c (r ! c) else r ! c))"
  using assms
proof (induction k)
  case 0
  then show ?case by simp
next
  case (Suc k)
  let ?f = "\<lambda>c r. jsset r c (F c (jsget r c))"
  from Suc have IH: "length (fold ?f [j..<k] r) = length r"
      "\<And>c. c < length r \<Longrightarrow> fold ?f [j..<k] r ! c = (if j \<le> c \<and> c < k then F c (r ! c) else r ! c)"
    by simp_all
  show ?case
  proof (cases "j \<le> k")
    case True
    then have up: "[j..<Suc k] = [j..<k] @ [k]" by simp
    have k: "k < length r" using Suc.prems by simp
    have fk: "fold ?f [j..<Suc k] r = (fold ?f [j..<k] r)[k := F k (r ! k)]"
      using k IH(1) IH(2)[of k] True by (simp add: up jsset_def jsget_def)
    show ?thesis
      unfolding fk using IH True k by (auto simp add: nth_list_update less_Suc_eq)
  next
    case False
    then show ?thesis using IH by simp
  qed
qed

lemma scaleRow_nth:
  assumes "length row = Suc n"
  shows "length (scaleRow n col pivot row) = Suc n"
    and "c \<le> n \<Longrightarrow> scaleRow n col pivot row ! c = (if col \<le> c then row ! c / pivot else row ! c)"
  using fold_jsset[of "Suc n" row "\<lambda>c v. v / pivot" col] assms
  by (auto simp add: scaleRow_def)

lemma eliminateRow_nth:
  assumes "length row = Suc n"
  shows "length (eliminateRow n col cd row) = Suc n"
    and "c \<le> n \<Longrightarrow> eliminateRow n col cd row ! c =
      (if col \<le> c then row ! c - jsget row col * jsget cd c else row ! c)"
  using fold_jsset[of "Suc n" row "\<lambda>c v. v - jsget row col * jsget cd c" col] assms
  by (auto simp add: eliminateRow_def Let_def)

lemma eliminateRows_nth:
  assumes "k \<le> length M"
  shows "length (fold (\<lambda>row M'. if row = col then M'
                     else if row < length M' then M'[row := E (M' ! row)]
                     else M') [0..<k] M) = length M \<and>
     (\<forall>r<length M. fold (\<lambda>row M'. if row = col then M'
                     else if row < length M' then M'[row := E (M' ! row)]
                     else M') [0..<k] M ! r = (if r < k \<and> r \<noteq> col then E (M ! r) else M ! r))"
  using assms
proof (induction k)
  case 0
  then show ?case by simp
next
  case (Suc k)
  let ?g = "\<lambda>row M'. if row = col then M'
                     else if row < length M' then M'[row := E (M' ! row)]
                     else M'"
  from Suc have IH: "length (fold ?g [0..<k] M) = length M"
      "\<And>r. r < length M \<Longrightarrow> fold ?g [0..<k] M ! r = (if r < k \<and> r \<noteq> col then E (M ! r) else M ! r)"
    by simp_all
  have k: "k < length M" using Suc.prems by simp
  have fk: "fold ?g [0..<Suc k] M = ?g k (fold ?g [0..<k] M)"
    by simp
  show ?case
    unfolding fk using IH k by (auto simp add: nth_list_update)
qed

lemma findPivot_fold:
  "fold (\<lambda>row (pivotRow, maxVal).
             let val = \<bar>mget M row col\<bar>
             in if val > maxVal then (row, val) else (pivotRow, maxVal)) xs (p, \<bar>mget M p col\<bar>) = (p', v')
   \<Longrightarrow> v' = \<bar>mget M p' col\<bar> \<and> (p' = p \<or> p' \<in> set xs)"
proof (induction xs arbitrary: p)
  case Nil
  then show ?case by auto
next
  case (Cons a xs)
  show ?case
  proof (cases "\<bar>mget M a col\<bar> > \<bar>mget M p col\<bar>")
    case True
    with Cons.prems Cons.IH[of a] show ?thesis by (auto simp add: Let_def)
  next
    case False
    with Cons.prems Cons.IH[of p] show ?thesis by (auto simp add: Let_def)
  qed
qed

lemma findPivot_props:
  assumes "findPivot M n col = (p, mv)"
  shows "mv = \<bar>mget M p col\<bar>" and "p = col \<or> (col < p \<and> p < n)"
  using findPivot_fold[OF assms[unfolded findPivot_def]] by auto

lemma eliminateRows_rows:
  assumes "length M = n"
  shows "length (eliminateRows n col cd M) = n"
    and "r < n \<Longrightarrow> eliminateRows n col cd M ! r =
       (if r \<noteq> col then eliminateRow n col cd (M ! r) else M ! r)"
  using eliminateRows_nth[of n M col "eliminateRow n col cd"] assms
  by (auto simp add: eliminateRows_def)

lemma gaussStep_sound:
  assumes wf: "wfMatrix n M" and uc: "unitCols n col M" and col: "col < n"
    and st: "gaussStep n col M = Some M'"
  shows "wfMatrix n M' \<and> unitCols n (Suc col) M' \<and> (sat n M' x \<longrightarrow> sat n M x)"
proof -
  have len: "length M = n" and rowlen: "\<And>r. r < n \<Longrightarrow> length (M ! r) = Suc n"
    using wf by (simp_all add: wfMatrix_def)
  have unit: "\<And>r c. r < n \<Longrightarrow> c < col \<Longrightarrow> M ! r ! c = (if r = c then 1 else 0)"
    using uc by (simp add: unitCols_def)
  obtain p mv where fp: "findPivot M n col = (p, mv)"
    by force
  have mv: "mv = \<bar>mget M p col\<bar>" and p: "p = col \<or> (col < p \<and> p < n)"
    using findPivot_props[OF fp] by simp_all
  have pn: "p < n" and cp: "col \<le> p" using p col by auto
  have mv0: "mv \<noteq> 0"
    using st fp by (auto simp add: gaussStep_def split: if_splits)
  define M1 where "M1 = (if p \<noteq> col then M[col := M ! p, p := M ! col] else M)"
  have len1: "length M1 = n" by (simp add: M1_def len)
  have M1col: "M1 ! col = M ! p"
    using col pn len by (auto simp add: M1_def nth_list_update)
  have M1p: "M1 ! p = M ! col"
    using col pn len by (auto simp add: M1_def nth_list_update)
  have M1other: "\<And>r. r \<noteq> col \<Longrightarrow> r \<noteq> p \<Longrightarrow> M1 ! r = M ! r"
    by (simp add: M1_def)
  have rowlen1: "\<And>r. r < n \<Longrightarrow> length (M1 ! r) = Suc n"
  proof -
    fix r assume r: "r < n"
    show "length (M1 ! r) = Suc n"
      using r rowlen[of r] rowlen[of p] rowlen[of col] pn col M1col M1p M1other[of r]
      by (cases "r = col"; cases "r = p") auto
  qed
  have unit1: "\<And>r c. r < n \<Longrightarrow> c < col \<Longrightarrow> M1 ! r ! c = (if r = c then 1 else 0)"
  proof -
    fix r c assume r: "r < n" and c: "c < col"
    show "M1 ! r ! c = (if r = c then 1 else 0)"
      using r c unit[of r c] unit[of p c] unit[of col c] pn col cp M1col M1p M1other[of r]
      by (cases "r = col"; cases "r = p") auto
  qed
  define pivot where "pivot = jsget (M1 ! col) col"
  have pivot: "pivot = M ! p ! col"
    using rowlen[OF pn] col by (simp add: pivot_def M1col jsget_def)
  have pivot0: "pivot \<noteq> 0"
    using mv0 mv pn len rowlen[OF pn] col by (simp add: pivot mget_def jsget_def)
  define cd where "cd = scaleRow n col pivot (M1 ! col)"
  have cdlen: "length cd = Suc n"
    unfolding cd_def by (rule scaleRow_nth(1)[OF rowlen1[OF col]])
  have cdnth: "\<And>c. c \<le> n \<Longrightarrow> cd ! c = M1 ! col ! c / pivot"
  proof -
    fix c assume c: "c \<le> n"
    show "cd ! c = M1 ! col ! c / pivot"
      using scaleRow_nth(2)[OF rowlen1[OF col] c, of col pivot] unit1[OF col, of c]
      by (cases "col \<le> c") (auto simp add: cd_def)
  qed
  have cdcol: "cd ! col = 1"
    using cdnth[of col] col pivot0 rowlen1[OF col] by (simp add: pivot_def jsget_def)
  have cdlow: "\<And>c. c < col \<Longrightarrow> cd ! c = 0"
    using cdnth unit1[OF col] col by simp
  have M': "M' = eliminateRows n col cd (M1[col := cd])"
    using st fp mv0 len1 col
    by (simp add: gaussStep_def M1_def[symmetric] pivot_def[symmetric] cd_def[symmetric] Let_def)
  have len2: "length (M1[col := cd]) = n" by (simp add: len1)
  have len': "length M' = n"
    unfolding M' by (rule eliminateRows_rows(1)[OF len2])
  have M'col: "M' ! col = cd"
    unfolding M' using eliminateRows_rows(2)[OF len2 col, of col cd] col len1 by simp
  have M'row: "\<And>r. r < n \<Longrightarrow> r \<noteq> col \<Longrightarrow> M' ! r = eliminateRow n col cd (M1 ! r)"
    unfolding M' using eliminateRows_rows(2)[OF len2, of _ col cd] by simp
  have M'len: "\<And>r. r < n \<Longrightarrow> length (M' ! r) = Suc n"
  proof -
    fix r assume r: "r < n"
    show "length (M' ! r) = Suc n"
      using M'col cdlen M'row[OF r] eliminateRow_nth(1)[OF rowlen1[OF r], of col cd]
      by (cases "r = col") auto
  qed
  have M'nth: "\<And>r c. r < n \<Longrightarrow> r \<noteq> col \<Longrightarrow> c \<le> n \<Longrightarrow>
      M' ! r ! c = M1 ! r ! c - M1 ! r ! col * cd ! c"
  proof -
    fix r c assume r: "r < n" and rc: "r \<noteq> col" and c: "c \<le> n"
    have "M' ! r ! c = (if col \<le> c then M1 ! r ! c - jsget (M1 ! r) col * jsget cd c else M1 ! r ! c)"
      using eliminateRow_nth(2)[OF rowlen1[OF r] c, of col cd] M'row[OF r rc] by simp
    moreover have "jsget (M1 ! r) col = M1 ! r ! col"
      using rowlen1[OF r] col by (simp add: jsget_def)
    moreover have "jsget cd c = cd ! c"
      using cdlen c by (simp add: jsget_def)
    ultimately show "M' ! r ! c = M1 ! r ! c - M1 ! r ! col * cd ! c"
      using cdlow[of c] by (cases "col \<le> c") auto
  qed
  have wf': "wfMatrix n M'"
    using len' M'len by (simp add: wfMatrix_def)
  have uc': "unitCols n (Suc col) M'"
    unfolding unitCols_def
  proof (intro allI impI)
    fix r c assume r: "r < n" and c: "c < Suc col"
    have cn: "c \<le> n" using c col by simp
    show "M' ! r ! c = (if r = c then 1 else 0)"
    proof (cases "r = col")
      case True
      then show ?thesis using M'col cdcol cdlow[of c] c by (cases "c = col") auto
    next
      case False
      show ?thesis
      proof (cases "c = col")
        case True
        then show ?thesis using M'nth[OF r False cn] cdcol False by simp
      next
        case False2: False
        then have "c < col" using c by simp
        then show ?thesis using M'nth[OF r False cn] cdlow[of c] unit1[OF r, of c] by simp
      qed
    qed
  qed
  have sat': "sat n M x" if s: "sat n M' x"
  proof -
    have rowc: "(\<Sum>c<n. cd ! c * x c) = cd ! n"
      using s col M'col by (auto simp add: sat_def)
    have s1: "(\<Sum>c<n. M1 ! r ! c * x c) = M1 ! r ! n" if r: "r < n" for r
    proof (cases "r = col")
      case True
      have "(\<Sum>c<n. M1 ! col ! c * x c) = (\<Sum>c<n. pivot * (cd ! c * x c))"
        using pivot0 by (intro sum.cong) (simp_all add: cdnth)
      also have "\<dots> = pivot * cd ! n"
        by (simp add: sum_distrib_left[symmetric] rowc)
      also have "\<dots> = M1 ! col ! n"
        using pivot0 by (simp add: cdnth)
      finally show ?thesis using True by simp
    next
      case False
      have "(\<Sum>c<n. M1 ! r ! c * x c) = (\<Sum>c<n. M' ! r ! c * x c + M1 ! r ! col * (cd ! c * x c))"
        by (intro sum.cong) (simp_all add: M'nth[OF r False] algebra_simps)
      also have "\<dots> = M' ! r ! n + M1 ! r ! col * cd ! n"
        using s r by (simp add: sum.distrib sum_distrib_left[symmetric] rowc sat_def)
      also have "\<dots> = M1 ! r ! n"
        by (simp add: M'nth[OF r False])
      finally show ?thesis .
    qed
    show ?thesis
      unfolding sat_def
    proof (intro allI impI)
      fix r assume r: "r < n"
      show "(\<Sum>c<n. M ! r ! c * x c) = M ! r ! n"
        using s1[OF r] s1[OF pn] s1[OF col] M1col M1p M1other[of r]
        by (cases "r = col"; cases "r = p") auto
    qed
  qed
  show ?thesis using wf' uc' sat' by blast
qed

text \<open>The loop over the columns, one step at a time.\<close>

lemma gaussLoop_step:
  "col < n \<Longrightarrow> gaussStep n col M = Some M' \<Longrightarrow> gaussLoop n col M = gaussLoop n (Suc col) M'"
  by (subst gaussLoop.simps) simp

lemma gaussLoop_stop: "col < n \<Longrightarrow> gaussStep n col M = None \<Longrightarrow> gaussLoop n col M = None"
  by (subst gaussLoop.simps) simp

lemma gaussLoop_done: "\<not> col < n \<Longrightarrow> gaussLoop n col M = Some M"
  by (subst gaussLoop.simps) simp

lemma gaussLoop_sound:
  assumes "wfMatrix n M" and "unitCols n col M" and "col \<le> n" and "gaussLoop n col M = Some M'"
  shows "wfMatrix n M' \<and> unitCols n n M' \<and> (sat n M' x \<longrightarrow> sat n M x)"
  using assms
proof (induction "n - col" arbitrary: col M)
  case 0
  then have "col = n" by simp
  with 0 show ?case by (simp add: gaussLoop.simps[of n n])
next
  case (Suc k)
  then have col: "col < n" by simp
  from Suc.prems(4) col obtain M1 where st: "gaussStep n col M = Some M1"
      and rest: "gaussLoop n (Suc col) M1 = Some M'"
    by (subst (asm) gaussLoop.simps) (auto split: option.splits)
  from gaussStep_sound[OF Suc.prems(1,2) col st, of x]
  have 1: "wfMatrix n M1" "unitCols n (Suc col) M1" "sat n M1 x \<longrightarrow> sat n M x"
    by simp_all
  have "k = n - Suc col" using Suc.hyps(2) by simp
  from Suc.hyps(1)[OF this 1(1,2) _ rest] col
  have "wfMatrix n M' \<and> unitCols n n M' \<and> (sat n M' x \<longrightarrow> sat n M1 x)" by simp
  with 1(3) show ?case by blast
qed

lemma unit_solution:
  assumes "wfMatrix n M" and "unitCols n n M"
  shows "sat n M (\<lambda>c. jsget (M ! c) n)"
  unfolding sat_def
proof (intro allI impI)
  fix r assume r: "r < n"
  have "(\<Sum>c<n. M ! r ! c * jsget (M ! c) n) = (\<Sum>c<n. if r = c then jsget (M ! c) n else 0)"
    using assms(2) r by (intro sum.cong) (auto simp add: unitCols_def)
  also have "\<dots> = jsget (M ! r) n"
    using r by simp
  also have "\<dots> = M ! r ! n"
    using assms(1) r by (simp add: wfMatrix_def jsget_def)
  finally show "(\<Sum>c<n. M ! r ! c * jsget (M ! c) n) = M ! r ! n" .
qed

lemma sat_cong: "(\<And>c. c < n \<Longrightarrow> x c = y c) \<Longrightarrow> sat n M x = sat n M y"
  by (simp add: sat_def)

lemma solveLinearSystem_sound:
  assumes b: "length b = n" and A: "length A = n" and rows: "\<And>r. r < n \<Longrightarrow> length (A ! r) = n"
    and nz: "gaussLoop n 0 (augment A b) \<noteq> None"
    and r: "r < n"
  shows "(\<Sum>c<n. A ! r ! c * jsget (solveLinearSystem A b) c) = b ! r"
proof -
  let ?M = "augment A b"
  have Mr: "\<And>r. r < n \<Longrightarrow> ?M ! r = A ! r @ [b ! r]"
    using A b by (simp add: augment_def jsget_def)
  have wf: "wfMatrix n ?M"
    using A rows Mr by (simp add: wfMatrix_def augment_def)
  have uc: "unitCols n 0 ?M" by (simp add: unitCols_def)
  from nz obtain M' where M': "gaussLoop n 0 ?M = Some M'" by auto
  let ?x = "\<lambda>c. jsget (M' ! c) n"
  from gaussLoop_sound[OF wf uc _ M', of ?x]
  have wf': "wfMatrix n M'" and uc': "unitCols n n M'" and imp: "sat n M' ?x \<longrightarrow> sat n ?M ?x"
    by simp_all
  have sol: "solveLinearSystem A b = map (\<lambda>row. jsget row n) M'"
    using M' b by (simp add: solveLinearSystem_def Let_def)
  have x: "\<And>c. c < n \<Longrightarrow> jsget (solveLinearSystem A b) c = ?x c"
    using wf' by (simp add: sol jsget_def wfMatrix_def)
  have "sat n ?M ?x" using imp unit_solution[OF wf' uc'] by simp
  then have "sat n ?M (jsget (solveLinearSystem A b))"
    using sat_cong[of n "jsget (solveLinearSystem A b)" ?x ?M] x by simp
  then have "(\<Sum>c<n. ?M ! r ! c * jsget (solveLinearSystem A b) c) = ?M ! r ! n"
    using r by (simp add: sat_def)
  moreover have "\<And>c. c < n \<Longrightarrow> ?M ! r ! c = A ! r ! c"
    using Mr[OF r] rows[OF r] by (simp add: nth_append)
  moreover have "?M ! r ! n = b ! r"
    using Mr[OF r] rows[OF r] by (simp add: nth_append)
  ultimately show ?thesis by simp
qed

lemma sum8: "(\<Sum>c<(8::nat). f c) = f 0 + f 1 + f 2 + f 3 + f 4 + f 5 + f 6 + (f 7 :: rat)"
  by (simp add: eval_nat_numeral)

lemma correspondence_equations:
  assumes nz: "gaussLoop 8 0 (augment (systemMatrix [s0, s1, s2, s3] [d0, d1, d2, d3])
                 (systemRhs [s0, s1, s2, s3] [d0, d1, d2, d3])) \<noteq> None"
    and sd: "(s, d) \<in> {(s0, d0), (s1, d1), (s2, d2), (s3, d3)}"
  shows "jsget (computeHomography [s0, s1, s2, s3] [d0, d1, d2, d3]) 0 * cx s +
         jsget (computeHomography [s0, s1, s2, s3] [d0, d1, d2, d3]) 1 * cy s +
         jsget (computeHomography [s0, s1, s2, s3] [d0, d1, d2, d3]) 2 =
         cx d * (jsget (computeHomography [s0, s1, s2, s3] [d0, d1, d2, d3]) 6 * cx s +
                 jsget (computeHomography [s0, s1, s2, s3] [d0, d1, d2, d3]) 7 * cy s + 1)"
    and "jsget (computeHomography [s0, s1, s2, s3] [d0, d1, d2, d3]) 3 * cx s +
         jsget (computeHomography [s0, s1, s2, s3] [d0, d1, d2, d3]) 4 * cy s +
         jsget (computeHomography [s0, s1, s2, s3] [d0, d1, d2, d3]) 5 =
         cy d * (jsget (computeHomography [s0, s1, s2, s3] [d0, d1, d2, d3]) 6 * cx s +
                 jsget (computeHomography [s0, s1, s2, s3] [d0, d1, d2, d3]) 7 * cy s + 1)"
proof -
  let ?A = "systemMatrix [s0, s1, s2, s3] [d0, d1, d2, d3]"
  let ?b = "systemRhs [s0, s1, s2, s3] [d0, d1, d2, d3]"
  let ?h = "computeHomography [s0, s1, s2, s3] [d0, d1, d2, d3]"
  have A: "?A = correspondenceRows s0 d0 @ correspondenceRows s1 d1 @
               correspondenceRows s2 d2 @ correspondenceRows s3 d3"
    by (simp add: systemMatrix_def)
  have b: "?b = [cx d0, cy d0, cx d1, cy d1, cx d2, cy d2, cx d3, cy d3]"
    by (simp add: systemRhs_def correspondenceRhs_def)
  have h: "?h = solveLinearSystem ?A ?b"
    by (simp add: computeHomography_def)
  have lenb: "length ?b = 8" by (simp add: b)
  have lenA: "length ?A = 8" by (simp add: A correspondenceRows_def Let_def)
  have rows: "\<And>r. r < 8 \<Longrightarrow> length (?A ! r) = 8"
  proof -
    fix r :: nat assume "r < 8"
    then consider "r = 0" | "r = 1" | "r = 2" | "r = 3" | "r = 4" | "r = 5" | "r = 6" | "r = 7"
      by linarith
    then show "length (?A ! r) = 8"
      by cases (simp_all add: A correspondenceRows_def Let_def)
  qed
  have eq: "\<And>r. r < 8 \<Longrightarrow> (\<Sum>c<8. ?A ! r ! c * jsget ?h c) = ?b ! r"
    unfolding h by (rule solveLinearSystem_sound[OF lenb lenA rows nz])
  note e = eq[of 0] eq[of 1] eq[of 2] eq[of 3] eq[of 4] eq[of 5] eq[of 6] eq[of 7]
  note e' = e[unfolded sum8, simplified, unfolded A b correspondenceRows_def Let_def, simplified]
  show "jsget ?h 0 * cx s + jsget ?h 1 * cy s + jsget ?h 2 =
         cx d * (jsget ?h 6 * cx s + jsget ?h 7 * cy s + 1)"
    using sd e' by (auto simp add: algebra_simps)
  show "jsget ?h 3 * cx s + jsget ?h 4 * cy s + jsget ?h 5 =
         cy d * (jsget ?h 6 * cx s + jsget ?h 7 * cy s + 1)"
    using sd e' by (auto simp add: algebra_simps)
qed

text \<open>
  C1, as the code has it. For four correspondences for which the solver finds a nonzero
  pivot in every column, the homography that \<open>computeHomography\<close> returns maps
  \<open>src[i]\<close> to \<open>dst[i]\<close> exactly, for every \<open>i\<close> at which the denominator
  \<open>h31 * x + h32 * y + 1\<close> of \<open>applyHomography\<close> is not zero.
\<close>

theorem computeHomography_roundtrip:
  assumes len: "length src = 4" "length dst = 4"
    and nz: "gaussLoop 8 0 (augment (systemMatrix src dst) (systemRhs src dst)) \<noteq> None"
    and i: "i < 4"
    and den: "jsget (computeHomography src dst) 6 * cx (src ! i) +
              jsget (computeHomography src dst) 7 * cy (src ! i) + 1 \<noteq> 0"
  shows "applyHomography (computeHomography src dst) (src ! i) = dst ! i"
proof -
  obtain s0 s1 s2 s3 where src: "src = [s0, s1, s2, s3]"
    using len(1) by (auto simp add: length_Suc_conv eval_nat_numeral)
  obtain d0 d1 d2 d3 where dst: "dst = [d0, d1, d2, d3]"
    using len(2) by (auto simp add: length_Suc_conv eval_nat_numeral)
  have sd: "(src ! i, dst ! i) \<in> {(s0, d0), (s1, d1), (s2, d2), (s3, d3)}"
  proof -
    from i consider "i = 0" | "i = 1" | "i = 2" | "i = 3" by linarith
    then show ?thesis by cases (simp_all add: src dst)
  qed
  let ?h = "computeHomography src dst"
  let ?den = "jsget ?h 6 * cx (src ! i) + jsget ?h 7 * cy (src ! i) + 1"
  from correspondence_equations[OF nz[unfolded src dst] sd[unfolded src dst]]
  have e1: "jsget ?h 0 * cx (src ! i) + jsget ?h 1 * cy (src ! i) + jsget ?h 2 = cx (dst ! i) * ?den"
    and e2: "jsget ?h 3 * cx (src ! i) + jsget ?h 4 * cy (src ! i) + jsget ?h 5 = cy (dst ! i) * ?den"
    unfolding src dst by simp_all
  have "applyHomography ?h (src ! i) =
      \<lparr>cx = (jsget ?h 0 * cx (src ! i) + jsget ?h 1 * cy (src ! i) + jsget ?h 2) / ?den,
       cy = (jsget ?h 3 * cx (src ! i) + jsget ?h 4 * cy (src ! i) + jsget ?h 5) / ?den\<rparr>"
    using den by (simp add: applyHomography_def Let_def)
  also have "\<dots> = \<lparr>cx = cx (dst ! i), cy = cy (dst ! i)\<rparr>"
    unfolding e1 e2 using den by simp
  finally show ?thesis by simp
qed

text \<open>
  The elimination for the corners of the 128 by 128 source and the quad \<open>foldedQuad\<close>:
  every column has a pivot.
\<close>

lemma folded_step0:
  "gaussStep 8 0
   [[0, 0, 1, 0, 0, 0, 0, 0, 0],
    [0, 0, 0, 0, 0, 1, 0, 0, 0],
    [128, 0, 1, 0, 0, 0, - 16384, 0, 128],
    [0, 0, 0, 128, 0, 1, 0, 0, 0],
    [128, 128, 1, 0, 0, 0, - 16384, - 16384, 128],
    [0, 0, 0, 128, 128, 1, - 16384, - 16384, 128],
    [0, 128, 1, 0, 0, 0, 0, - 8192, 64],
    [0, 0, 0, 0, 128, 1, 0, - 8192, 64]]
 = Some
   [[1, 0, 1 / 128, 0, 0, 0, - 128, 0, 1],
    [0, 0, 0, 0, 0, 1, 0, 0, 0],
    [0, 0, 1, 0, 0, 0, 0, 0, 0],
    [0, 0, 0, 128, 0, 1, 0, 0, 0],
    [0, 128, 0, 0, 0, 0, 0, - 16384, 0],
    [0, 0, 0, 128, 128, 1, - 16384, - 16384, 128],
    [0, 128, 1, 0, 0, 0, 0, - 8192, 64],
    [0, 0, 0, 0, 128, 1, 0, - 8192, 64]]"
  by code_simp

lemma folded_step1:
  "gaussStep 8 (Suc 0)
   [[1, 0, 1 / 128, 0, 0, 0, - 128, 0, 1],
    [0, 0, 0, 0, 0, 1, 0, 0, 0],
    [0, 0, 1, 0, 0, 0, 0, 0, 0],
    [0, 0, 0, 128, 0, 1, 0, 0, 0],
    [0, 128, 0, 0, 0, 0, 0, - 16384, 0],
    [0, 0, 0, 128, 128, 1, - 16384, - 16384, 128],
    [0, 128, 1, 0, 0, 0, 0, - 8192, 64],
    [0, 0, 0, 0, 128, 1, 0, - 8192, 64]]
 = Some
   [[1, 0, 1 / 128, 0, 0, 0, - 128, 0, 1],
    [0, 1, 0, 0, 0, 0, 0, - 128, 0],
    [0, 0, 1, 0, 0, 0, 0, 0, 0],
    [0, 0, 0, 128, 0, 1, 0, 0, 0],
    [0, 0, 0, 0, 0, 1, 0, 0, 0],
    [0, 0, 0, 128, 128, 1, - 16384, - 16384, 128],
    [0, 0, 1, 0, 0, 0, 0, 8192, 64],
    [0, 0, 0, 0, 128, 1, 0, - 8192, 64]]"
  by code_simp

lemma folded_step2:
  "gaussStep 8 (Suc (Suc 0))
   [[1, 0, 1 / 128, 0, 0, 0, - 128, 0, 1],
    [0, 1, 0, 0, 0, 0, 0, - 128, 0],
    [0, 0, 1, 0, 0, 0, 0, 0, 0],
    [0, 0, 0, 128, 0, 1, 0, 0, 0],
    [0, 0, 0, 0, 0, 1, 0, 0, 0],
    [0, 0, 0, 128, 128, 1, - 16384, - 16384, 128],
    [0, 0, 1, 0, 0, 0, 0, 8192, 64],
    [0, 0, 0, 0, 128, 1, 0, - 8192, 64]]
 = Some
   [[1, 0, 0, 0, 0, 0, - 128, 0, 1],
    [0, 1, 0, 0, 0, 0, 0, - 128, 0],
    [0, 0, 1, 0, 0, 0, 0, 0, 0],
    [0, 0, 0, 128, 0, 1, 0, 0, 0],
    [0, 0, 0, 0, 0, 1, 0, 0, 0],
    [0, 0, 0, 128, 128, 1, - 16384, - 16384, 128],
    [0, 0, 0, 0, 0, 0, 0, 8192, 64],
    [0, 0, 0, 0, 128, 1, 0, - 8192, 64]]"
  by code_simp

lemma folded_step3:
  "gaussStep 8 (Suc (Suc (Suc 0)))
   [[1, 0, 0, 0, 0, 0, - 128, 0, 1],
    [0, 1, 0, 0, 0, 0, 0, - 128, 0],
    [0, 0, 1, 0, 0, 0, 0, 0, 0],
    [0, 0, 0, 128, 0, 1, 0, 0, 0],
    [0, 0, 0, 0, 0, 1, 0, 0, 0],
    [0, 0, 0, 128, 128, 1, - 16384, - 16384, 128],
    [0, 0, 0, 0, 0, 0, 0, 8192, 64],
    [0, 0, 0, 0, 128, 1, 0, - 8192, 64]]
 = Some
   [[1, 0, 0, 0, 0, 0, - 128, 0, 1],
    [0, 1, 0, 0, 0, 0, 0, - 128, 0],
    [0, 0, 1, 0, 0, 0, 0, 0, 0],
    [0, 0, 0, 1, 0, 1 / 128, 0, 0, 0],
    [0, 0, 0, 0, 0, 1, 0, 0, 0],
    [0, 0, 0, 0, 128, 0, - 16384, - 16384, 128],
    [0, 0, 0, 0, 0, 0, 0, 8192, 64],
    [0, 0, 0, 0, 128, 1, 0, - 8192, 64]]"
  by code_simp

lemma folded_step4:
  "gaussStep 8 (Suc (Suc (Suc (Suc 0))))
   [[1, 0, 0, 0, 0, 0, - 128, 0, 1],
    [0, 1, 0, 0, 0, 0, 0, - 128, 0],
    [0, 0, 1, 0, 0, 0, 0, 0, 0],
    [0, 0, 0, 1, 0, 1 / 128, 0, 0, 0],
    [0, 0, 0, 0, 0, 1, 0, 0, 0],
    [0, 0, 0, 0, 128, 0, - 16384, - 16384, 128],
    [0, 0, 0, 0, 0, 0, 0, 8192, 64],
    [0, 0, 0, 0, 128, 1, 0, - 8192, 64]]
 = Some
   [[1, 0, 0, 0, 0, 0, - 128, 0, 1],
    [0, 1, 0, 0, 0, 0, 0, - 128, 0],
    [0, 0, 1, 0, 0, 0, 0, 0, 0],
    [0, 0, 0, 1, 0, 1 / 128, 0, 0, 0],
    [0, 0, 0, 0, 1, 0, - 128, - 128, 1],
    [0, 0, 0, 0, 0, 1, 0, 0, 0],
    [0, 0, 0, 0, 0, 0, 0, 8192, 64],
    [0, 0, 0, 0, 0, 1, 16384, 8192, - 64]]"
  by code_simp

lemma folded_step5:
  "gaussStep 8 (Suc (Suc (Suc (Suc (Suc 0)))))
   [[1, 0, 0, 0, 0, 0, - 128, 0, 1],
    [0, 1, 0, 0, 0, 0, 0, - 128, 0],
    [0, 0, 1, 0, 0, 0, 0, 0, 0],
    [0, 0, 0, 1, 0, 1 / 128, 0, 0, 0],
    [0, 0, 0, 0, 1, 0, - 128, - 128, 1],
    [0, 0, 0, 0, 0, 1, 0, 0, 0],
    [0, 0, 0, 0, 0, 0, 0, 8192, 64],
    [0, 0, 0, 0, 0, 1, 16384, 8192, - 64]]
 = Some
   [[1, 0, 0, 0, 0, 0, - 128, 0, 1],
    [0, 1, 0, 0, 0, 0, 0, - 128, 0],
    [0, 0, 1, 0, 0, 0, 0, 0, 0],
    [0, 0, 0, 1, 0, 0, 0, 0, 0],
    [0, 0, 0, 0, 1, 0, - 128, - 128, 1],
    [0, 0, 0, 0, 0, 1, 0, 0, 0],
    [0, 0, 0, 0, 0, 0, 0, 8192, 64],
    [0, 0, 0, 0, 0, 0, 16384, 8192, - 64]]"
  by code_simp

lemma folded_step6:
  "gaussStep 8 (Suc (Suc (Suc (Suc (Suc (Suc 0))))))
   [[1, 0, 0, 0, 0, 0, - 128, 0, 1],
    [0, 1, 0, 0, 0, 0, 0, - 128, 0],
    [0, 0, 1, 0, 0, 0, 0, 0, 0],
    [0, 0, 0, 1, 0, 0, 0, 0, 0],
    [0, 0, 0, 0, 1, 0, - 128, - 128, 1],
    [0, 0, 0, 0, 0, 1, 0, 0, 0],
    [0, 0, 0, 0, 0, 0, 0, 8192, 64],
    [0, 0, 0, 0, 0, 0, 16384, 8192, - 64]]
 = Some
   [[1, 0, 0, 0, 0, 0, 0, 64, 1 / 2],
    [0, 1, 0, 0, 0, 0, 0, - 128, 0],
    [0, 0, 1, 0, 0, 0, 0, 0, 0],
    [0, 0, 0, 1, 0, 0, 0, 0, 0],
    [0, 0, 0, 0, 1, 0, 0, - 64, 1 / 2],
    [0, 0, 0, 0, 0, 1, 0, 0, 0],
    [0, 0, 0, 0, 0, 0, 1, 1 / 2, - (1 / 256)],
    [0, 0, 0, 0, 0, 0, 0, 8192, 64]]"
  by code_simp

lemma folded_step7:
  "gaussStep 8 (Suc (Suc (Suc (Suc (Suc (Suc (Suc 0)))))))
   [[1, 0, 0, 0, 0, 0, 0, 64, 1 / 2],
    [0, 1, 0, 0, 0, 0, 0, - 128, 0],
    [0, 0, 1, 0, 0, 0, 0, 0, 0],
    [0, 0, 0, 1, 0, 0, 0, 0, 0],
    [0, 0, 0, 0, 1, 0, 0, - 64, 1 / 2],
    [0, 0, 0, 0, 0, 1, 0, 0, 0],
    [0, 0, 0, 0, 0, 0, 1, 1 / 2, - (1 / 256)],
    [0, 0, 0, 0, 0, 0, 0, 8192, 64]]
 = Some
   [[1, 0, 0, 0, 0, 0, 0, 0, 0],
    [0, 1, 0, 0, 0, 0, 0, 0, 1],
    [0, 0, 1, 0, 0, 0, 0, 0, 0],
    [0, 0, 0, 1, 0, 0, 0, 0, 0],
    [0, 0, 0, 0, 1, 0, 0, 0, 1],
    [0, 0, 0, 0, 0, 1, 0, 0, 0],
    [0, 0, 0, 0, 0, 0, 1, 0, - (1 / 128)],
    [0, 0, 0, 0, 0, 0, 0, 1, 1 / 128]]"
  by code_simp

lemma folded_augment:
  "augment (systemMatrix [\<lparr>cx = 0, cy = 0\<rparr>, \<lparr>cx = 128, cy = 0\<rparr>, \<lparr>cx = 128, cy = 128\<rparr>, \<lparr>cx = 0, cy = 128\<rparr>]
      [\<lparr>cx = 0, cy = 0\<rparr>, \<lparr>cx = 128, cy = 0\<rparr>, \<lparr>cx = 128, cy = 128\<rparr>, \<lparr>cx = 64, cy = 64\<rparr>])
     (systemRhs [\<lparr>cx = 0, cy = 0\<rparr>, \<lparr>cx = 128, cy = 0\<rparr>, \<lparr>cx = 128, cy = 128\<rparr>, \<lparr>cx = 0, cy = 128\<rparr>]
      [\<lparr>cx = 0, cy = 0\<rparr>, \<lparr>cx = 128, cy = 0\<rparr>, \<lparr>cx = 128, cy = 128\<rparr>, \<lparr>cx = 64, cy = 64\<rparr>]) =
   [[0, 0, 1, 0, 0, 0, 0, 0, 0],
    [0, 0, 0, 0, 0, 1, 0, 0, 0],
    [128, 0, 1, 0, 0, 0, - 16384, 0, 128],
    [0, 0, 0, 128, 0, 1, 0, 0, 0],
    [128, 128, 1, 0, 0, 0, - 16384, - 16384, 128],
    [0, 0, 0, 128, 128, 1, - 16384, - 16384, 128],
    [0, 128, 1, 0, 0, 0, 0, - 8192, 64],
    [0, 0, 0, 0, 128, 1, 0, - 8192, 64]]"
  by code_simp

lemma folded_rhs_length:
  "length (systemRhs [\<lparr>cx = 0, cy = 0\<rparr>, \<lparr>cx = 128, cy = 0\<rparr>, \<lparr>cx = 128, cy = 128\<rparr>, \<lparr>cx = 0, cy = 128\<rparr>]
      [\<lparr>cx = 0, cy = 0\<rparr>, \<lparr>cx = 128, cy = 0\<rparr>, \<lparr>cx = 128, cy = 128\<rparr>, \<lparr>cx = 64, cy = 64\<rparr>]) = 8"
  by code_simp

lemma folded_gaussLoop:
  "gaussLoop 8 0
   [[0, 0, 1, 0, 0, 0, 0, 0, 0],
    [0, 0, 0, 0, 0, 1, 0, 0, 0],
    [128, 0, 1, 0, 0, 0, - 16384, 0, 128],
    [0, 0, 0, 128, 0, 1, 0, 0, 0],
    [128, 128, 1, 0, 0, 0, - 16384, - 16384, 128],
    [0, 0, 0, 128, 128, 1, - 16384, - 16384, 128],
    [0, 128, 1, 0, 0, 0, 0, - 8192, 64],
    [0, 0, 0, 0, 128, 1, 0, - 8192, 64]] =
   Some
   [[1, 0, 0, 0, 0, 0, 0, 0, 0],
    [0, 1, 0, 0, 0, 0, 0, 0, 1],
    [0, 0, 1, 0, 0, 0, 0, 0, 0],
    [0, 0, 0, 1, 0, 0, 0, 0, 0],
    [0, 0, 0, 0, 1, 0, 0, 0, 1],
    [0, 0, 0, 0, 0, 1, 0, 0, 0],
    [0, 0, 0, 0, 0, 0, 1, 0, - (1 / 128)],
    [0, 0, 0, 0, 0, 0, 0, 1, 1 / 128]]"
  by (simp add: gaussLoop_step [OF _ folded_step0]
      gaussLoop_step [OF _ folded_step1]
      gaussLoop_step [OF _ folded_step2]
      gaussLoop_step [OF _ folded_step3]
      gaussLoop_step [OF _ folded_step4]
      gaussLoop_step [OF _ folded_step5]
      gaussLoop_step [OF _ folded_step6]
      gaussLoop_step [OF _ folded_step7]
      gaussLoop_done)

lemma folded_homography:
  "computeHomography [\<lparr>cx = 0, cy = 0\<rparr>, \<lparr>cx = 128, cy = 0\<rparr>, \<lparr>cx = 128, cy = 128\<rparr>, \<lparr>cx = 0, cy = 128\<rparr>]
      [\<lparr>cx = 0, cy = 0\<rparr>, \<lparr>cx = 128, cy = 0\<rparr>, \<lparr>cx = 128, cy = 128\<rparr>, \<lparr>cx = 64, cy = 64\<rparr>] = [0, 1, 0, 0, 1, 0, - (1 / 128), 1 / 128]"
  by (simp add: computeHomography_def solveLinearSystem_def Let_def folded_augment folded_rhs_length folded_gaussLoop jsget_def)

text \<open>
  No pivot is zero for \<open>foldedQuad\<close>, yet the denominator vanishes at the second source
  corner: \<open>applyHomography\<close> returns the origin there, not the second target corner.
\<close>

theorem computeHomography_roundtrip_counterexample:
  "length sourceSquare = 4 \<and> length foldedQuad = 4 \<and>
   gaussLoop 8 0 (augment (systemMatrix sourceSquare foldedQuad)
                          (systemRhs sourceSquare foldedQuad)) \<noteq> None \<and>
   applyHomography (computeHomography sourceSquare foldedQuad) (sourceSquare ! 1) = \<lparr>cx = 0, cy = 0\<rparr> \<and>
   foldedQuad ! 1 = \<lparr>cx = 128, cy = 0\<rparr> \<and>
   applyHomography (computeHomography sourceSquare foldedQuad) (sourceSquare ! 1) \<noteq> foldedQuad ! 1"
  by (simp add: sourceSquare_def foldedQuad_def folded_augment folded_gaussLoop folded_homography
      applyHomography_def jsget_def Let_def)


text \<open>The elimination for the trapezoid.\<close>

lemma trapezoid_step0:
  "gaussStep 8 0
   [[0, 0, 1, 0, 0, 0, 0, 0, 0],
    [0, 0, 0, 0, 0, 1, 0, 0, 0],
    [128, 0, 1, 0, 0, 0, - 16384, 0, 128],
    [0, 0, 0, 128, 0, 1, 0, 0, 0],
    [128, 128, 1, 0, 0, 0, - 12288, - 12288, 96],
    [0, 0, 0, 128, 128, 1, - 16384, - 16384, 128],
    [0, 128, 1, 0, 0, 0, 0, - 4096, 32],
    [0, 0, 0, 0, 128, 1, 0, - 16384, 128]]
 = Some
   [[1, 0, 1 / 128, 0, 0, 0, - 128, 0, 1],
    [0, 0, 0, 0, 0, 1, 0, 0, 0],
    [0, 0, 1, 0, 0, 0, 0, 0, 0],
    [0, 0, 0, 128, 0, 1, 0, 0, 0],
    [0, 128, 0, 0, 0, 0, 4096, - 12288, - 32],
    [0, 0, 0, 128, 128, 1, - 16384, - 16384, 128],
    [0, 128, 1, 0, 0, 0, 0, - 4096, 32],
    [0, 0, 0, 0, 128, 1, 0, - 16384, 128]]"
  by code_simp

lemma trapezoid_step1:
  "gaussStep 8 (Suc 0)
   [[1, 0, 1 / 128, 0, 0, 0, - 128, 0, 1],
    [0, 0, 0, 0, 0, 1, 0, 0, 0],
    [0, 0, 1, 0, 0, 0, 0, 0, 0],
    [0, 0, 0, 128, 0, 1, 0, 0, 0],
    [0, 128, 0, 0, 0, 0, 4096, - 12288, - 32],
    [0, 0, 0, 128, 128, 1, - 16384, - 16384, 128],
    [0, 128, 1, 0, 0, 0, 0, - 4096, 32],
    [0, 0, 0, 0, 128, 1, 0, - 16384, 128]]
 = Some
   [[1, 0, 1 / 128, 0, 0, 0, - 128, 0, 1],
    [0, 1, 0, 0, 0, 0, 32, - 96, - (1 / 4)],
    [0, 0, 1, 0, 0, 0, 0, 0, 0],
    [0, 0, 0, 128, 0, 1, 0, 0, 0],
    [0, 0, 0, 0, 0, 1, 0, 0, 0],
    [0, 0, 0, 128, 128, 1, - 16384, - 16384, 128],
    [0, 0, 1, 0, 0, 0, - 4096, 8192, 64],
    [0, 0, 0, 0, 128, 1, 0, - 16384, 128]]"
  by code_simp

lemma trapezoid_step2:
  "gaussStep 8 (Suc (Suc 0))
   [[1, 0, 1 / 128, 0, 0, 0, - 128, 0, 1],
    [0, 1, 0, 0, 0, 0, 32, - 96, - (1 / 4)],
    [0, 0, 1, 0, 0, 0, 0, 0, 0],
    [0, 0, 0, 128, 0, 1, 0, 0, 0],
    [0, 0, 0, 0, 0, 1, 0, 0, 0],
    [0, 0, 0, 128, 128, 1, - 16384, - 16384, 128],
    [0, 0, 1, 0, 0, 0, - 4096, 8192, 64],
    [0, 0, 0, 0, 128, 1, 0, - 16384, 128]]
 = Some
   [[1, 0, 0, 0, 0, 0, - 128, 0, 1],
    [0, 1, 0, 0, 0, 0, 32, - 96, - (1 / 4)],
    [0, 0, 1, 0, 0, 0, 0, 0, 0],
    [0, 0, 0, 128, 0, 1, 0, 0, 0],
    [0, 0, 0, 0, 0, 1, 0, 0, 0],
    [0, 0, 0, 128, 128, 1, - 16384, - 16384, 128],
    [0, 0, 0, 0, 0, 0, - 4096, 8192, 64],
    [0, 0, 0, 0, 128, 1, 0, - 16384, 128]]"
  by code_simp

lemma trapezoid_step3:
  "gaussStep 8 (Suc (Suc (Suc 0)))
   [[1, 0, 0, 0, 0, 0, - 128, 0, 1],
    [0, 1, 0, 0, 0, 0, 32, - 96, - (1 / 4)],
    [0, 0, 1, 0, 0, 0, 0, 0, 0],
    [0, 0, 0, 128, 0, 1, 0, 0, 0],
    [0, 0, 0, 0, 0, 1, 0, 0, 0],
    [0, 0, 0, 128, 128, 1, - 16384, - 16384, 128],
    [0, 0, 0, 0, 0, 0, - 4096, 8192, 64],
    [0, 0, 0, 0, 128, 1, 0, - 16384, 128]]
 = Some
   [[1, 0, 0, 0, 0, 0, - 128, 0, 1],
    [0, 1, 0, 0, 0, 0, 32, - 96, - (1 / 4)],
    [0, 0, 1, 0, 0, 0, 0, 0, 0],
    [0, 0, 0, 1, 0, 1 / 128, 0, 0, 0],
    [0, 0, 0, 0, 0, 1, 0, 0, 0],
    [0, 0, 0, 0, 128, 0, - 16384, - 16384, 128],
    [0, 0, 0, 0, 0, 0, - 4096, 8192, 64],
    [0, 0, 0, 0, 128, 1, 0, - 16384, 128]]"
  by code_simp

lemma trapezoid_step4:
  "gaussStep 8 (Suc (Suc (Suc (Suc 0))))
   [[1, 0, 0, 0, 0, 0, - 128, 0, 1],
    [0, 1, 0, 0, 0, 0, 32, - 96, - (1 / 4)],
    [0, 0, 1, 0, 0, 0, 0, 0, 0],
    [0, 0, 0, 1, 0, 1 / 128, 0, 0, 0],
    [0, 0, 0, 0, 0, 1, 0, 0, 0],
    [0, 0, 0, 0, 128, 0, - 16384, - 16384, 128],
    [0, 0, 0, 0, 0, 0, - 4096, 8192, 64],
    [0, 0, 0, 0, 128, 1, 0, - 16384, 128]]
 = Some
   [[1, 0, 0, 0, 0, 0, - 128, 0, 1],
    [0, 1, 0, 0, 0, 0, 32, - 96, - (1 / 4)],
    [0, 0, 1, 0, 0, 0, 0, 0, 0],
    [0, 0, 0, 1, 0, 1 / 128, 0, 0, 0],
    [0, 0, 0, 0, 1, 0, - 128, - 128, 1],
    [0, 0, 0, 0, 0, 1, 0, 0, 0],
    [0, 0, 0, 0, 0, 0, - 4096, 8192, 64],
    [0, 0, 0, 0, 0, 1, 16384, 0, 0]]"
  by code_simp

lemma trapezoid_step5:
  "gaussStep 8 (Suc (Suc (Suc (Suc (Suc 0)))))
   [[1, 0, 0, 0, 0, 0, - 128, 0, 1],
    [0, 1, 0, 0, 0, 0, 32, - 96, - (1 / 4)],
    [0, 0, 1, 0, 0, 0, 0, 0, 0],
    [0, 0, 0, 1, 0, 1 / 128, 0, 0, 0],
    [0, 0, 0, 0, 1, 0, - 128, - 128, 1],
    [0, 0, 0, 0, 0, 1, 0, 0, 0],
    [0, 0, 0, 0, 0, 0, - 4096, 8192, 64],
    [0, 0, 0, 0, 0, 1, 16384, 0, 0]]
 = Some
   [[1, 0, 0, 0, 0, 0, - 128, 0, 1],
    [0, 1, 0, 0, 0, 0, 32, - 96, - (1 / 4)],
    [0, 0, 1, 0, 0, 0, 0, 0, 0],
    [0, 0, 0, 1, 0, 0, 0, 0, 0],
    [0, 0, 0, 0, 1, 0, - 128, - 128, 1],
    [0, 0, 0, 0, 0, 1, 0, 0, 0],
    [0, 0, 0, 0, 0, 0, - 4096, 8192, 64],
    [0, 0, 0, 0, 0, 0, 16384, 0, 0]]"
  by code_simp

lemma trapezoid_step6:
  "gaussStep 8 (Suc (Suc (Suc (Suc (Suc (Suc 0))))))
   [[1, 0, 0, 0, 0, 0, - 128, 0, 1],
    [0, 1, 0, 0, 0, 0, 32, - 96, - (1 / 4)],
    [0, 0, 1, 0, 0, 0, 0, 0, 0],
    [0, 0, 0, 1, 0, 0, 0, 0, 0],
    [0, 0, 0, 0, 1, 0, - 128, - 128, 1],
    [0, 0, 0, 0, 0, 1, 0, 0, 0],
    [0, 0, 0, 0, 0, 0, - 4096, 8192, 64],
    [0, 0, 0, 0, 0, 0, 16384, 0, 0]]
 = Some
   [[1, 0, 0, 0, 0, 0, 0, 0, 1],
    [0, 1, 0, 0, 0, 0, 0, - 96, - (1 / 4)],
    [0, 0, 1, 0, 0, 0, 0, 0, 0],
    [0, 0, 0, 1, 0, 0, 0, 0, 0],
    [0, 0, 0, 0, 1, 0, 0, - 128, 1],
    [0, 0, 0, 0, 0, 1, 0, 0, 0],
    [0, 0, 0, 0, 0, 0, 1, 0, 0],
    [0, 0, 0, 0, 0, 0, 0, 8192, 64]]"
  by code_simp

lemma trapezoid_step7:
  "gaussStep 8 (Suc (Suc (Suc (Suc (Suc (Suc (Suc 0)))))))
   [[1, 0, 0, 0, 0, 0, 0, 0, 1],
    [0, 1, 0, 0, 0, 0, 0, - 96, - (1 / 4)],
    [0, 0, 1, 0, 0, 0, 0, 0, 0],
    [0, 0, 0, 1, 0, 0, 0, 0, 0],
    [0, 0, 0, 0, 1, 0, 0, - 128, 1],
    [0, 0, 0, 0, 0, 1, 0, 0, 0],
    [0, 0, 0, 0, 0, 0, 1, 0, 0],
    [0, 0, 0, 0, 0, 0, 0, 8192, 64]]
 = Some
   [[1, 0, 0, 0, 0, 0, 0, 0, 1],
    [0, 1, 0, 0, 0, 0, 0, 0, 1 / 2],
    [0, 0, 1, 0, 0, 0, 0, 0, 0],
    [0, 0, 0, 1, 0, 0, 0, 0, 0],
    [0, 0, 0, 0, 1, 0, 0, 0, 2],
    [0, 0, 0, 0, 0, 1, 0, 0, 0],
    [0, 0, 0, 0, 0, 0, 1, 0, 0],
    [0, 0, 0, 0, 0, 0, 0, 1, 1 / 128]]"
  by code_simp

lemma trapezoid_augment:
  "augment (systemMatrix [\<lparr>cx = 0, cy = 0\<rparr>, \<lparr>cx = 128, cy = 0\<rparr>, \<lparr>cx = 128, cy = 128\<rparr>, \<lparr>cx = 0, cy = 128\<rparr>]
      [\<lparr>cx = 0, cy = 0\<rparr>, \<lparr>cx = 128, cy = 0\<rparr>, \<lparr>cx = 96, cy = 128\<rparr>, \<lparr>cx = 32, cy = 128\<rparr>])
     (systemRhs [\<lparr>cx = 0, cy = 0\<rparr>, \<lparr>cx = 128, cy = 0\<rparr>, \<lparr>cx = 128, cy = 128\<rparr>, \<lparr>cx = 0, cy = 128\<rparr>]
      [\<lparr>cx = 0, cy = 0\<rparr>, \<lparr>cx = 128, cy = 0\<rparr>, \<lparr>cx = 96, cy = 128\<rparr>, \<lparr>cx = 32, cy = 128\<rparr>]) =
   [[0, 0, 1, 0, 0, 0, 0, 0, 0],
    [0, 0, 0, 0, 0, 1, 0, 0, 0],
    [128, 0, 1, 0, 0, 0, - 16384, 0, 128],
    [0, 0, 0, 128, 0, 1, 0, 0, 0],
    [128, 128, 1, 0, 0, 0, - 12288, - 12288, 96],
    [0, 0, 0, 128, 128, 1, - 16384, - 16384, 128],
    [0, 128, 1, 0, 0, 0, 0, - 4096, 32],
    [0, 0, 0, 0, 128, 1, 0, - 16384, 128]]"
  by code_simp

lemma trapezoid_rhs_length:
  "length (systemRhs [\<lparr>cx = 0, cy = 0\<rparr>, \<lparr>cx = 128, cy = 0\<rparr>, \<lparr>cx = 128, cy = 128\<rparr>, \<lparr>cx = 0, cy = 128\<rparr>]
      [\<lparr>cx = 0, cy = 0\<rparr>, \<lparr>cx = 128, cy = 0\<rparr>, \<lparr>cx = 96, cy = 128\<rparr>, \<lparr>cx = 32, cy = 128\<rparr>]) = 8"
  by code_simp

lemma trapezoid_gaussLoop:
  "gaussLoop 8 0
   [[0, 0, 1, 0, 0, 0, 0, 0, 0],
    [0, 0, 0, 0, 0, 1, 0, 0, 0],
    [128, 0, 1, 0, 0, 0, - 16384, 0, 128],
    [0, 0, 0, 128, 0, 1, 0, 0, 0],
    [128, 128, 1, 0, 0, 0, - 12288, - 12288, 96],
    [0, 0, 0, 128, 128, 1, - 16384, - 16384, 128],
    [0, 128, 1, 0, 0, 0, 0, - 4096, 32],
    [0, 0, 0, 0, 128, 1, 0, - 16384, 128]] =
   Some
   [[1, 0, 0, 0, 0, 0, 0, 0, 1],
    [0, 1, 0, 0, 0, 0, 0, 0, 1 / 2],
    [0, 0, 1, 0, 0, 0, 0, 0, 0],
    [0, 0, 0, 1, 0, 0, 0, 0, 0],
    [0, 0, 0, 0, 1, 0, 0, 0, 2],
    [0, 0, 0, 0, 0, 1, 0, 0, 0],
    [0, 0, 0, 0, 0, 0, 1, 0, 0],
    [0, 0, 0, 0, 0, 0, 0, 1, 1 / 128]]"
  by (simp add: gaussLoop_step [OF _ trapezoid_step0]
      gaussLoop_step [OF _ trapezoid_step1]
      gaussLoop_step [OF _ trapezoid_step2]
      gaussLoop_step [OF _ trapezoid_step3]
      gaussLoop_step [OF _ trapezoid_step4]
      gaussLoop_step [OF _ trapezoid_step5]
      gaussLoop_step [OF _ trapezoid_step6]
      gaussLoop_step [OF _ trapezoid_step7]
      gaussLoop_done)

lemma trapezoid_homography:
  "computeHomography [\<lparr>cx = 0, cy = 0\<rparr>, \<lparr>cx = 128, cy = 0\<rparr>, \<lparr>cx = 128, cy = 128\<rparr>, \<lparr>cx = 0, cy = 128\<rparr>]
      [\<lparr>cx = 0, cy = 0\<rparr>, \<lparr>cx = 128, cy = 0\<rparr>, \<lparr>cx = 96, cy = 128\<rparr>, \<lparr>cx = 32, cy = 128\<rparr>] = [1, 1 / 2, 0, 0, 2, 0, 0, 1 / 128]"
  by (simp add: computeHomography_def solveLinearSystem_def Let_def trapezoid_augment trapezoid_rhs_length trapezoid_gaussLoop jsget_def)

theorem computeHomography_roundtrip_witness:
  "length sourceSquare = 4 \<and> length trapezoid = 4 \<and>
   gaussLoop 8 0 (augment (systemMatrix sourceSquare trapezoid)
                          (systemRhs sourceSquare trapezoid)) \<noteq> None \<and>
   (2::nat) < 4 \<and>
   jsget (computeHomography sourceSquare trapezoid) 6 * cx (sourceSquare ! 2) +
     jsget (computeHomography sourceSquare trapezoid) 7 * cy (sourceSquare ! 2) + 1 = 2 \<and>
   applyHomography (computeHomography sourceSquare trapezoid) (sourceSquare ! 2) =
     \<lparr>cx = 96, cy = 128\<rparr>"
proof -
  have len: "length sourceSquare = 4" "length trapezoid = 4"
    by (simp_all add: sourceSquare_def trapezoid_def)
  have nz: "gaussLoop 8 0 (augment (systemMatrix sourceSquare trapezoid)
                          (systemRhs sourceSquare trapezoid)) \<noteq> None"
    by (simp add: sourceSquare_def trapezoid_def trapezoid_augment trapezoid_gaussLoop)
  have i: "(2::nat) < 4" by simp
  have den: "jsget (computeHomography sourceSquare trapezoid) 6 * cx (sourceSquare ! 2) +
     jsget (computeHomography sourceSquare trapezoid) 7 * cy (sourceSquare ! 2) + 1 = 2"
    by (simp add: sourceSquare_def trapezoid_def trapezoid_homography jsget_def)
  have den0: "jsget (computeHomography sourceSquare trapezoid) 6 * cx (sourceSquare ! 2) +
     jsget (computeHomography sourceSquare trapezoid) 7 * cy (sourceSquare ! 2) + 1 \<noteq> 0"
    unfolding den by simp
  have d: "trapezoid ! 2 = \<lparr>cx = 96, cy = 128\<rparr>"
    by (simp add: trapezoid_def)
  from computeHomography_roundtrip [OF len nz i den0] len nz den show ?thesis
    by (simp add: d)
qed

subsection \<open>The warp of a singular corner set\<close>

text \<open>
  The elimination for the 128 by 128 source and the corners \<open>collinearCorners\<close>: seven
  columns find a pivot, the eighth has none.
\<close>

lemma collinear_step0:
  "gaussStep 8 0
   [[0, 0, 1, 0, 0, 0, 0, 0, 0],
    [0, 0, 0, 0, 0, 1, 0, 0, 0],
    [128, 0, 1, 0, 0, 0, - 16384, 0, 128],
    [0, 0, 0, 128, 0, 1, 0, 0, 0],
    [128, 128, 1, 0, 0, 0, - 16384, - 16384, 128],
    [0, 0, 0, 128, 128, 1, - 16384, - 16384, 128],
    [0, 128, 1, 0, 0, 0, 0, - 16384, 128],
    [0, 0, 0, 0, 128, 1, 0, - 8192, 64]]
 = Some
   [[1, 0, 1 / 128, 0, 0, 0, - 128, 0, 1],
    [0, 0, 0, 0, 0, 1, 0, 0, 0],
    [0, 0, 1, 0, 0, 0, 0, 0, 0],
    [0, 0, 0, 128, 0, 1, 0, 0, 0],
    [0, 128, 0, 0, 0, 0, 0, - 16384, 0],
    [0, 0, 0, 128, 128, 1, - 16384, - 16384, 128],
    [0, 128, 1, 0, 0, 0, 0, - 16384, 128],
    [0, 0, 0, 0, 128, 1, 0, - 8192, 64]]"
  by code_simp

lemma collinear_step1:
  "gaussStep 8 (Suc 0)
   [[1, 0, 1 / 128, 0, 0, 0, - 128, 0, 1],
    [0, 0, 0, 0, 0, 1, 0, 0, 0],
    [0, 0, 1, 0, 0, 0, 0, 0, 0],
    [0, 0, 0, 128, 0, 1, 0, 0, 0],
    [0, 128, 0, 0, 0, 0, 0, - 16384, 0],
    [0, 0, 0, 128, 128, 1, - 16384, - 16384, 128],
    [0, 128, 1, 0, 0, 0, 0, - 16384, 128],
    [0, 0, 0, 0, 128, 1, 0, - 8192, 64]]
 = Some
   [[1, 0, 1 / 128, 0, 0, 0, - 128, 0, 1],
    [0, 1, 0, 0, 0, 0, 0, - 128, 0],
    [0, 0, 1, 0, 0, 0, 0, 0, 0],
    [0, 0, 0, 128, 0, 1, 0, 0, 0],
    [0, 0, 0, 0, 0, 1, 0, 0, 0],
    [0, 0, 0, 128, 128, 1, - 16384, - 16384, 128],
    [0, 0, 1, 0, 0, 0, 0, 0, 128],
    [0, 0, 0, 0, 128, 1, 0, - 8192, 64]]"
  by code_simp

lemma collinear_step2:
  "gaussStep 8 (Suc (Suc 0))
   [[1, 0, 1 / 128, 0, 0, 0, - 128, 0, 1],
    [0, 1, 0, 0, 0, 0, 0, - 128, 0],
    [0, 0, 1, 0, 0, 0, 0, 0, 0],
    [0, 0, 0, 128, 0, 1, 0, 0, 0],
    [0, 0, 0, 0, 0, 1, 0, 0, 0],
    [0, 0, 0, 128, 128, 1, - 16384, - 16384, 128],
    [0, 0, 1, 0, 0, 0, 0, 0, 128],
    [0, 0, 0, 0, 128, 1, 0, - 8192, 64]]
 = Some
   [[1, 0, 0, 0, 0, 0, - 128, 0, 1],
    [0, 1, 0, 0, 0, 0, 0, - 128, 0],
    [0, 0, 1, 0, 0, 0, 0, 0, 0],
    [0, 0, 0, 128, 0, 1, 0, 0, 0],
    [0, 0, 0, 0, 0, 1, 0, 0, 0],
    [0, 0, 0, 128, 128, 1, - 16384, - 16384, 128],
    [0, 0, 0, 0, 0, 0, 0, 0, 128],
    [0, 0, 0, 0, 128, 1, 0, - 8192, 64]]"
  by code_simp

lemma collinear_step3:
  "gaussStep 8 (Suc (Suc (Suc 0)))
   [[1, 0, 0, 0, 0, 0, - 128, 0, 1],
    [0, 1, 0, 0, 0, 0, 0, - 128, 0],
    [0, 0, 1, 0, 0, 0, 0, 0, 0],
    [0, 0, 0, 128, 0, 1, 0, 0, 0],
    [0, 0, 0, 0, 0, 1, 0, 0, 0],
    [0, 0, 0, 128, 128, 1, - 16384, - 16384, 128],
    [0, 0, 0, 0, 0, 0, 0, 0, 128],
    [0, 0, 0, 0, 128, 1, 0, - 8192, 64]]
 = Some
   [[1, 0, 0, 0, 0, 0, - 128, 0, 1],
    [0, 1, 0, 0, 0, 0, 0, - 128, 0],
    [0, 0, 1, 0, 0, 0, 0, 0, 0],
    [0, 0, 0, 1, 0, 1 / 128, 0, 0, 0],
    [0, 0, 0, 0, 0, 1, 0, 0, 0],
    [0, 0, 0, 0, 128, 0, - 16384, - 16384, 128],
    [0, 0, 0, 0, 0, 0, 0, 0, 128],
    [0, 0, 0, 0, 128, 1, 0, - 8192, 64]]"
  by code_simp

lemma collinear_step4:
  "gaussStep 8 (Suc (Suc (Suc (Suc 0))))
   [[1, 0, 0, 0, 0, 0, - 128, 0, 1],
    [0, 1, 0, 0, 0, 0, 0, - 128, 0],
    [0, 0, 1, 0, 0, 0, 0, 0, 0],
    [0, 0, 0, 1, 0, 1 / 128, 0, 0, 0],
    [0, 0, 0, 0, 0, 1, 0, 0, 0],
    [0, 0, 0, 0, 128, 0, - 16384, - 16384, 128],
    [0, 0, 0, 0, 0, 0, 0, 0, 128],
    [0, 0, 0, 0, 128, 1, 0, - 8192, 64]]
 = Some
   [[1, 0, 0, 0, 0, 0, - 128, 0, 1],
    [0, 1, 0, 0, 0, 0, 0, - 128, 0],
    [0, 0, 1, 0, 0, 0, 0, 0, 0],
    [0, 0, 0, 1, 0, 1 / 128, 0, 0, 0],
    [0, 0, 0, 0, 1, 0, - 128, - 128, 1],
    [0, 0, 0, 0, 0, 1, 0, 0, 0],
    [0, 0, 0, 0, 0, 0, 0, 0, 128],
    [0, 0, 0, 0, 0, 1, 16384, 8192, - 64]]"
  by code_simp

lemma collinear_step5:
  "gaussStep 8 (Suc (Suc (Suc (Suc (Suc 0)))))
   [[1, 0, 0, 0, 0, 0, - 128, 0, 1],
    [0, 1, 0, 0, 0, 0, 0, - 128, 0],
    [0, 0, 1, 0, 0, 0, 0, 0, 0],
    [0, 0, 0, 1, 0, 1 / 128, 0, 0, 0],
    [0, 0, 0, 0, 1, 0, - 128, - 128, 1],
    [0, 0, 0, 0, 0, 1, 0, 0, 0],
    [0, 0, 0, 0, 0, 0, 0, 0, 128],
    [0, 0, 0, 0, 0, 1, 16384, 8192, - 64]]
 = Some
   [[1, 0, 0, 0, 0, 0, - 128, 0, 1],
    [0, 1, 0, 0, 0, 0, 0, - 128, 0],
    [0, 0, 1, 0, 0, 0, 0, 0, 0],
    [0, 0, 0, 1, 0, 0, 0, 0, 0],
    [0, 0, 0, 0, 1, 0, - 128, - 128, 1],
    [0, 0, 0, 0, 0, 1, 0, 0, 0],
    [0, 0, 0, 0, 0, 0, 0, 0, 128],
    [0, 0, 0, 0, 0, 0, 16384, 8192, - 64]]"
  by code_simp

lemma collinear_step6:
  "gaussStep 8 (Suc (Suc (Suc (Suc (Suc (Suc 0))))))
   [[1, 0, 0, 0, 0, 0, - 128, 0, 1],
    [0, 1, 0, 0, 0, 0, 0, - 128, 0],
    [0, 0, 1, 0, 0, 0, 0, 0, 0],
    [0, 0, 0, 1, 0, 0, 0, 0, 0],
    [0, 0, 0, 0, 1, 0, - 128, - 128, 1],
    [0, 0, 0, 0, 0, 1, 0, 0, 0],
    [0, 0, 0, 0, 0, 0, 0, 0, 128],
    [0, 0, 0, 0, 0, 0, 16384, 8192, - 64]]
 = Some
   [[1, 0, 0, 0, 0, 0, 0, 64, 1 / 2],
    [0, 1, 0, 0, 0, 0, 0, - 128, 0],
    [0, 0, 1, 0, 0, 0, 0, 0, 0],
    [0, 0, 0, 1, 0, 0, 0, 0, 0],
    [0, 0, 0, 0, 1, 0, 0, - 64, 1 / 2],
    [0, 0, 0, 0, 0, 1, 0, 0, 0],
    [0, 0, 0, 0, 0, 0, 1, 1 / 2, - (1 / 256)],
    [0, 0, 0, 0, 0, 0, 0, 0, 128]]"
  by code_simp

lemma collinear_step7:
  "gaussStep 8 (Suc (Suc (Suc (Suc (Suc (Suc (Suc 0)))))))
   [[1, 0, 0, 0, 0, 0, 0, 64, 1 / 2],
    [0, 1, 0, 0, 0, 0, 0, - 128, 0],
    [0, 0, 1, 0, 0, 0, 0, 0, 0],
    [0, 0, 0, 1, 0, 0, 0, 0, 0],
    [0, 0, 0, 0, 1, 0, 0, - 64, 1 / 2],
    [0, 0, 0, 0, 0, 1, 0, 0, 0],
    [0, 0, 0, 0, 0, 0, 1, 1 / 2, - (1 / 256)],
    [0, 0, 0, 0, 0, 0, 0, 0, 128]]
 = None"
  by code_simp

lemma collinear_augment:
  "augment (systemMatrix [\<lparr>cx = 0, cy = 0\<rparr>, \<lparr>cx = 128, cy = 0\<rparr>, \<lparr>cx = 128, cy = 128\<rparr>, \<lparr>cx = 0, cy = 128\<rparr>]
      [\<lparr>cx = 0, cy = 0\<rparr>, \<lparr>cx = 128, cy = 0\<rparr>, \<lparr>cx = 128, cy = 128\<rparr>, \<lparr>cx = 128, cy = 64\<rparr>])
     (systemRhs [\<lparr>cx = 0, cy = 0\<rparr>, \<lparr>cx = 128, cy = 0\<rparr>, \<lparr>cx = 128, cy = 128\<rparr>, \<lparr>cx = 0, cy = 128\<rparr>]
      [\<lparr>cx = 0, cy = 0\<rparr>, \<lparr>cx = 128, cy = 0\<rparr>, \<lparr>cx = 128, cy = 128\<rparr>, \<lparr>cx = 128, cy = 64\<rparr>]) =
   [[0, 0, 1, 0, 0, 0, 0, 0, 0],
    [0, 0, 0, 0, 0, 1, 0, 0, 0],
    [128, 0, 1, 0, 0, 0, - 16384, 0, 128],
    [0, 0, 0, 128, 0, 1, 0, 0, 0],
    [128, 128, 1, 0, 0, 0, - 16384, - 16384, 128],
    [0, 0, 0, 128, 128, 1, - 16384, - 16384, 128],
    [0, 128, 1, 0, 0, 0, 0, - 16384, 128],
    [0, 0, 0, 0, 128, 1, 0, - 8192, 64]]"
  by code_simp

lemma collinear_rhs_length:
  "length (systemRhs [\<lparr>cx = 0, cy = 0\<rparr>, \<lparr>cx = 128, cy = 0\<rparr>, \<lparr>cx = 128, cy = 128\<rparr>, \<lparr>cx = 0, cy = 128\<rparr>]
      [\<lparr>cx = 0, cy = 0\<rparr>, \<lparr>cx = 128, cy = 0\<rparr>, \<lparr>cx = 128, cy = 128\<rparr>, \<lparr>cx = 128, cy = 64\<rparr>]) = 8"
  by code_simp

lemma collinear_gaussLoop:
  "gaussLoop 8 0
   [[0, 0, 1, 0, 0, 0, 0, 0, 0],
    [0, 0, 0, 0, 0, 1, 0, 0, 0],
    [128, 0, 1, 0, 0, 0, - 16384, 0, 128],
    [0, 0, 0, 128, 0, 1, 0, 0, 0],
    [128, 128, 1, 0, 0, 0, - 16384, - 16384, 128],
    [0, 0, 0, 128, 128, 1, - 16384, - 16384, 128],
    [0, 128, 1, 0, 0, 0, 0, - 16384, 128],
    [0, 0, 0, 0, 128, 1, 0, - 8192, 64]] =
   None"
  by (simp add: gaussLoop_step [OF _ collinear_step0]
      gaussLoop_step [OF _ collinear_step1]
      gaussLoop_step [OF _ collinear_step2]
      gaussLoop_step [OF _ collinear_step3]
      gaussLoop_step [OF _ collinear_step4]
      gaussLoop_step [OF _ collinear_step5]
      gaussLoop_step [OF _ collinear_step6]
      gaussLoop_stop [OF _ collinear_step7])

lemma collinear_homography:
  "computeHomography [\<lparr>cx = 0, cy = 0\<rparr>, \<lparr>cx = 128, cy = 0\<rparr>, \<lparr>cx = 128, cy = 128\<rparr>, \<lparr>cx = 0, cy = 128\<rparr>]
      [\<lparr>cx = 0, cy = 0\<rparr>, \<lparr>cx = 128, cy = 0\<rparr>, \<lparr>cx = 128, cy = 128\<rparr>, \<lparr>cx = 128, cy = 64\<rparr>] = replicate 8 0"
  by (simp add: computeHomography_def solveLinearSystem_def Let_def collinear_augment collinear_rhs_length collinear_gaussLoop jsget_def)

lemma ceiling_numeral_div:
  "\<lceil>numeral a / numeral b :: rat\<rceil> = - (- numeral a div numeral b)"
  by (simp add: ceiling_def floor_neg_numeral_div)

lemma collinear_segments: "getWarpSegments 128 128 Final = 4"
  by (simp add: getWarpSegments_def Let_def ceiling_numeral_div)

lemma warpCell_zero_homography:
  "warpCell [0, 0, 0, 0, 0, 0, 0, 0] 32 32 y x =
   [DrawTriangle (origin, origin, origin) (0, 0, 0, 0, 0, 0),
    DrawTriangle (origin, origin, origin) (0, 0, 0, 0, 0, 0)]"
  by (simp add: warpCell_def Let_def applyHomography_def jsget_def drawWarpTriangle_def origin_def
      algebra_simps)

text \<open>
  C3, what the code does. For \<open>collinearCorners\<close> the solver meets a zero pivot and returns
  eight zeros; they are finite, so \<open>isValidHomography\<close> accepts them and the stretched
  fallback is not taken. Each of the 32 triangles is drawn through the zero transform and
  clipped to a triangle whose corners all are the origin: nothing of the source image
  reaches the output canvas.
\<close>

theorem getWarpedCanvas_collinear_draws_nothing:
  "getWarpedCanvas Final (Some (128, 128)) (Some collinearCorners) True =
     Inr \<lparr>canvasWidth = 128, canvasHeight = 128,
          warpedRect = \<lparr>rx = 0, ry = 0, rwidth = 128, rheight = 128\<rparr>,
          draws = replicate 32 (DrawTriangle (origin, origin, origin) (0, 0, 0, 0, 0, 0))\<rparr>"
  by (simp add: getWarpedCanvas_def collinearCorners_def Let_def collinear_homography
      isValidHomography_def isFinite_def collinear_segments warpCell_zero_homography
      upt_rec numeral_eq_Suc)

end
